theory Spec2Isabelle
  imports Main "HOL-Library.Signed_Division" "HOL-Library.Sublist"
begin

section \<open>Numbers and strings of the runtime\<close>

text \<open>
  The helpers of the front end work on JavaScript numbers that are always integral here
  (clock fields, loop counters, offsets in minutes), so a number is an \<open>int\<close>. The
  remainder operator \<open>%\<close> takes the sign of the dividend: it is \<open>smod\<close>.
  \<open>Math.floor (a / b)\<close> for a positive \<open>b\<close> is \<open>div\<close> on \<open>int\<close>.
\<close>

definition digit_char :: "nat \<Rightarrow> char" where
  "digit_char d = ''0123456789'' ! d"

fun nat_digits :: "nat \<Rightarrow> string" where
  "nat_digits n = (if n < 10 then [digit_char n] else nat_digits (n div 10) @ [digit_char (n mod 10)])"

declare nat_digits.simps [simp del]

text \<open>\<open>String(k)\<close>, and the string a number becomes under \<open>+\<close> with a string.\<close>

definition number_to_string :: "int \<Rightarrow> string" where
  "number_to_string k = (if k < 0 then CHR ''-'' # nat_digits (nat (- k)) else nat_digits (nat k))"

text \<open>\<open>s.padStart(n, c)\<close> for a filler of one character.\<close>

definition padStart :: "string \<Rightarrow> nat \<Rightarrow> char \<Rightarrow> string" where
  "padStart s n c = replicate (n - length s) c @ s"

section \<open>Time options\<close>

definition toMinutesSinceMidnight :: "int \<Rightarrow> int \<Rightarrow> int" where
  "toMinutesSinceMidnight hours minutes = hours * 60 + minutes"

definition formatTime :: "int \<Rightarrow> int \<Rightarrow> string" where
  "formatTime hours minutes =
     (let ampm = (if hours \<ge> 12 then ''PM'' else ''AM'');
          hours1 = hours smod 12;
          hours2 = (if hours1 \<noteq> 0 then hours1 else 12);
          minutes' = (if minutes < 10 then ''0'' @ number_to_string minutes
                      else number_to_string minutes)
      in number_to_string hours2 @ '':'' @ minutes' @ '' '' @ ampm)"

text \<open>
  The loop of \<open>populateTimeOptions\<close>: \<open>i\<close> runs from its start value to \<open>24 * 4 - 1\<close>,
  and \<open>timeOptions.push\<close> appends. The local \<open>currentTime\<close> of the source is written
  in the loop and never read, so it has no place in the result.
\<close>

function populate_loop :: "int \<Rightarrow> int \<Rightarrow> string list \<Rightarrow> string list" where
  "populate_loop currentTimeInMinutes i timeOptions =
     (if i < 24 * 4 then
        (let hours = i div 4;
             minutes = (i smod 4) * 15;
             formattedTime = formatTime hours minutes;
             optionTimeInMinutes = toMinutesSinceMidnight hours minutes
         in populate_loop currentTimeInMinutes (i + 1)
              (if optionTimeInMinutes \<ge> currentTimeInMinutes
               then timeOptions @ [formattedTime] else timeOptions))
      else timeOptions)"
  by pat_completeness auto
termination
  by (relation "measure (\<lambda>(c, i, acc). nat (96 - i))") auto

declare populate_loop.simps [simp del]

text \<open>
  \<open>populateTimeOptions\<close> reads the clock once: \<open>nowHours\<close> and \<open>nowMinutes\<close> are
  \<open>now.getHours()\<close> and \<open>now.getMinutes()\<close> of \<open>new Date()\<close>.
\<close>

definition populateTimeOptions :: "int \<Rightarrow> int \<Rightarrow> string list" where
  "populateTimeOptions nowHours nowMinutes =
     (let currentHours = nowHours;
          currentMinutes = (nowMinutes div 15) * 15;
          (currentMinutes, currentHours) =
             (if currentMinutes = 60 then (0, currentHours + 1) else (currentMinutes, currentHours));
          currentTimeInMinutes = toMinutesSinceMidnight currentHours currentMinutes
      in populate_loop currentTimeInMinutes 0 [])"


section \<open>Time zone offset and RFC 3339 timestamps\<close>

text \<open>
  \<open>getTimezoneOffset\<close> reads \<open>new Date().getTimezoneOffset()\<close>: the parameter
  \<open>offsetInMinutes\<close> is that number, UTC minus local time in minutes (positive west of
  Greenwich, negative east of it).
\<close>

definition getTimezoneOffset :: "int \<Rightarrow> string" where
  "getTimezoneOffset offsetInMinutes =
     (let sign = (if offsetInMinutes \<le> 0 then ''+'' else ''-'');
          offsetInHours = \<bar>offsetInMinutes\<bar> div 60;
          offsetInRemainingMinutes = \<bar>offsetInMinutes\<bar> smod 60;
          formattedOffset =
            sign @ padStart (number_to_string offsetInHours) 2 (CHR ''0'') @ '':'' @
            padStart (number_to_string offsetInRemainingMinutes) 2 (CHR ''0'')
      in formattedOffset)"

subsection \<open>The pattern of the offset string\<close>

definition is_digit :: "char \<Rightarrow> bool" where
  "is_digit c = (c \<in> set ''0123456789'')"

text \<open>
  \<open>s.match(/([+-])(\d{2}):(\d{2})/)\<close>: the pattern is not anchored, so the match is the
  leftmost position where it holds. The result is the three groups (what \<open>.slice(1)\<close>
  keeps of the match array), or \<open>None\<close> for \<open>null\<close>.
\<close>

fun match_at :: "string \<Rightarrow> (string \<times> string \<times> string) option" where
  "match_at (s # h1 # h2 # c # m1 # m2 # rest) =
     (if (s = CHR ''+'' \<or> s = CHR ''-'') \<and> is_digit h1 \<and> is_digit h2 \<and> c = CHR '':''
         \<and> is_digit m1 \<and> is_digit m2
      then Some ([s], [h1, h2], [m1, m2]) else None)"
| "match_at _ = None"

fun match_offset :: "string \<Rightarrow> (string \<times> string \<times> string) option" where
  "match_offset [] = None"
| "match_offset (c # cs) =
     (case match_at (c # cs) of Some g \<Rightarrow> Some g | None \<Rightarrow> match_offset cs)"

subsection \<open>Numbers that may be NaN\<close>

text \<open>
  A number that can be \<open>NaN\<close> is an \<open>int option\<close>, \<open>None\<close> for \<open>NaN\<close>; arithmetic
  with \<open>NaN\<close> gives \<open>NaN\<close>.
\<close>

definition num_add :: "int option \<Rightarrow> int option \<Rightarrow> int option" where
  "num_add a b = (case (a, b) of (Some x, Some y) \<Rightarrow> Some (x + y) | _ \<Rightarrow> None)"

definition num_mul :: "int option \<Rightarrow> int option \<Rightarrow> int option" where
  "num_mul a b = (case (a, b) of (Some x, Some y) \<Rightarrow> Some (x * y) | _ \<Rightarrow> None)"

text \<open>The value of a decimal digit: its position in the digits.\<close>

definition digit_value :: "char \<Rightarrow> int" where
  "digit_value c = int (length (takeWhile (\<lambda>d. d \<noteq> c) ''0123456789''))"

definition digits_value :: "string \<Rightarrow> int" where
  "digits_value ds = foldl (\<lambda>acc c. 10 * acc + digit_value c) 0 ds"

text \<open>
  \<open>parseInt(s)\<close> on a string without leading white space, sign or radix prefix (the
  groups of the pattern are two decimal digits): the value of the leading decimal digits,
  \<open>NaN\<close> when there is none.
\<close>

definition parseInt :: "string \<Rightarrow> int option" where
  "parseInt s = (let ds = takeWhile is_digit s in if ds = [] then None else Some (digits_value ds))"

subsection \<open>The Date object of the runtime\<close>

text \<open>
  A \<open>Date\<close> holds a time value: milliseconds since the epoch, or \<open>NaN\<close> (an invalid
  date). The runtime is a record of what the code reads from its environment: the clock
  \<open>Date.now()\<close>, the offset of the local time zone (what \<open>getTimezoneOffset()\<close> of a
  \<open>Date\<close> returns; the zone has one fixed offset), and the reading of a date string by
  \<open>new Date(string)\<close>, which the language leaves to the engine for strings that are not
  in the ISO format. The functions below follow the definitions of the language standard
  (\<open>LocalTime\<close>, \<open>UTC\<close>, \<open>MakeTime\<close>, \<open>MakeDate\<close>, \<open>TimeClip\<close>).
\<close>

record runtime =
  date_now :: int
  tz_offset :: int
  date_parse :: "string \<Rightarrow> int option"

datatype js_error = TypeError | RangeError

definition msPerMinute :: int where "msPerMinute = 60000"
definition msPerHour :: int where "msPerHour = 3600000"
definition msPerDay :: int where "msPerDay = 86400000"

definition LocalTime :: "runtime \<Rightarrow> int \<Rightarrow> int" where
  "LocalTime rt t = t - tz_offset rt * msPerMinute"

definition UTC_time :: "runtime \<Rightarrow> int \<Rightarrow> int" where
  "UTC_time rt t = t + tz_offset rt * msPerMinute"

definition TimeClip :: "int \<Rightarrow> int option" where
  "TimeClip t = (if \<bar>t\<bar> > 8640000000000000 then None else Some t)"

definition getHours :: "runtime \<Rightarrow> int option \<Rightarrow> int option" where
  "getHours rt d = map_option (\<lambda>t. (LocalTime rt t div msPerHour) mod 24) d"

definition getMinutes :: "runtime \<Rightarrow> int option \<Rightarrow> int option" where
  "getMinutes rt d = map_option (\<lambda>t. (LocalTime rt t div msPerMinute) mod 60) d"

text \<open>\<open>date.setMinutes(min)\<close>: the new time value of the date.\<close>

definition setMinutes :: "runtime \<Rightarrow> int option \<Rightarrow> int option \<Rightarrow> int option" where
  "setMinutes rt d minutes =
     (case (d, minutes) of
        (Some t, Some m) \<Rightarrow>
          (let l = LocalTime rt t;
               day = l div msPerDay;
               hour = (l div msPerHour) mod 24;
               sec = (l div 1000) mod 60;
               ms = l mod 1000;
               time = hour * msPerHour + m * msPerMinute + sec * 1000 + ms
           in TimeClip (UTC_time rt (day * msPerDay + time)))
      | _ \<Rightarrow> None)"

text \<open>Days since the epoch of a civil date, and the civil date of a day number.\<close>

definition days_from_civil :: "int \<Rightarrow> int \<Rightarrow> int \<Rightarrow> int" where
  "days_from_civil y m d =
     (let y' = (if m \<le> 2 then y - 1 else y);
          era = y' div 400;
          yoe = y' - era * 400;
          doy = (153 * (if m > 2 then m - 3 else m + 9) + 2) div 5 + d - 1;
          doe = yoe * 365 + yoe div 4 - yoe div 100 + doy
      in era * 146097 + doe - 719468)"

definition civil_from_days :: "int \<Rightarrow> int \<times> int \<times> int" where
  "civil_from_days z =
     (let z' = z + 719468;
          era = z' div 146097;
          doe = z' - era * 146097;
          yoe = (doe - doe div 1460 + doe div 36524 - doe div 146096) div 365;
          doy = doe - (365 * yoe + yoe div 4 - yoe div 100);
          mp = (5 * doy + 2) div 153;
          d = doy - (153 * mp + 2) div 5 + 1;
          m = (if mp < 10 then mp + 3 else mp - 9);
          y = yoe + era * 400
      in (if m \<le> 2 then y + 1 else y, m, d))"

definition pad_number :: "nat \<Rightarrow> int \<Rightarrow> string" where
  "pad_number n k = padStart (number_to_string k) n (CHR ''0'')"

text \<open>
  \<open>date.toISOString()\<close>: the UTC fields as \<open>YYYY-MM-DDTHH:mm:ss.sssZ\<close> (a year outside
  0..9999 has a sign and six digits); a \<open>RangeError\<close> on an invalid date.
\<close>

definition toISOString :: "int option \<Rightarrow> js_error + string" where
  "toISOString d =
     (case d of
        None \<Rightarrow> Inl RangeError
      | Some t \<Rightarrow>
          (let (y, m, dd) = civil_from_days (t div msPerDay);
               tod = t mod msPerDay;
               year = (if 0 \<le> y \<and> y \<le> 9999 then pad_number 4 y
                       else (if y < 0 then ''-'' else ''+'') @ pad_number 6 \<bar>y\<bar>)
           in Inr (year @ ''-'' @ pad_number 2 m @ ''-'' @ pad_number 2 dd @ ''T'' @
                   pad_number 2 (tod div msPerHour) @ '':'' @
                   pad_number 2 ((tod div msPerMinute) mod 60) @ '':'' @
                   pad_number 2 ((tod div 1000) mod 60) @ ''.'' @
                   pad_number 3 (tod mod 1000) @ ''Z'')))"

text \<open>\<open>s.split(sep)\<close> for a separator of one character.\<close>

fun split_on :: "char \<Rightarrow> string \<Rightarrow> string list" where
  "split_on sep [] = [[]]"
| "split_on sep (c # cs) =
     (if c = sep then [] # split_on sep cs
      else (case split_on sep cs of p # ps \<Rightarrow> (c # p) # ps | [] \<Rightarrow> [[c]]))"

subsection \<open>convertToRFC3339\<close>

text \<open>
  The non-null assertion on the match is a \<open>TypeError\<close> when the match is \<open>null\<close>
  (\<open>.slice\<close> of \<open>null\<close>); \<open>toISOString\<close> raises on an invalid date. Destructuring
  \<open>isoString.split('T')\<close> into two names and calling \<open>.split\<close> on the second is a
  \<open>TypeError\<close> when the second is missing.
\<close>

definition convertToRFC3339 :: "runtime \<Rightarrow> string \<Rightarrow> string \<Rightarrow> js_error + string" where
  "convertToRFC3339 rt dateString timeString =
     (let timeZoneOffset = getTimezoneOffset (tz_offset rt);
          date = date_parse rt (dateString @ '' '' @ timeString)
      in case match_offset timeZoneOffset of
           None \<Rightarrow> Inl TypeError
         | Some (offsetSign, offsetHours, offsetMinutes) \<Rightarrow>
             (let offsetInMinutes =
                    num_mul (num_add (num_mul (parseInt offsetHours) (Some 60)) (parseInt offsetMinutes))
                            (Some (if offsetSign = ''+'' then 1 else - 1));
                  date' = setMinutes rt date (num_add (getMinutes rt date) offsetInMinutes)
              in case toISOString date' of
                   Inl e \<Rightarrow> Inl e
                 | Inr isoString \<Rightarrow>
                     (case split_on (CHR ''T'') isoString of
                        isoDate # isoTime # _ \<Rightarrow>
                          Inr (isoDate @ ''T'' @ hd (split_on (CHR ''.'') isoTime) @ timeZoneOffset)
                      | _ \<Rightarrow> Inl TypeError)))"

subsection \<open>A runtime in the zone UTC+05:30\<close>

text \<open>
  The reading of a string of the shape \<open>Y-M-D h:mm AM\<close> or \<open>Y-M-D h:mm PM\<close> as local
  wall-clock time, as the legacy date parser of the engine reads it in a zone whose
  \<open>getTimezoneOffset()\<close> is \<open>tz\<close>; any other string is an invalid date.
\<close>

definition parse_number :: "string \<Rightarrow> int option" where
  "parse_number s = (if s \<noteq> [] \<and> list_all is_digit s then Some (digits_value s) else None)"

definition local_date_parse :: "int \<Rightarrow> string \<Rightarrow> int option" where
  "local_date_parse tz s =
     (case split_on (CHR '' '') s of
        [d, t, ap] \<Rightarrow>
          (case (map parse_number (split_on (CHR ''-'') d), map parse_number (split_on (CHR '':'') t)) of
             ([Some y, Some mo, Some dy], [Some h, Some mi]) \<Rightarrow>
               (if 1 \<le> mo \<and> mo \<le> 12 \<and> 1 \<le> dy \<and> dy \<le> 31 \<and> h \<le> 12 \<and> mi \<le> 59
                   \<and> (ap = ''AM'' \<or> ap = ''PM'')
                then TimeClip (days_from_civil y mo dy * msPerDay
                        + (h mod 12 + (if ap = ''PM'' then 12 else 0)) * msPerHour
                        + mi * msPerMinute + tz * msPerMinute)
                else None)
           | _ \<Rightarrow> None)
      | _ \<Rightarrow> None)"

definition runtime_ist :: runtime where
  "runtime_ist = \<lparr> date_now = 1705307400000, tz_offset = - 330, date_parse = local_date_parse (- 330) \<rparr>"

section \<open>The API client\<close>

subsection \<open>Envelopes, requests and answers\<close>

text \<open>
  The envelope \<open>{status, message, data}\<close> of every answer. \<open>data\<close> is typed \<open>any\<close> in
  the source: a payload is one of the values the back end sends, \<open>NoData\<close> for
  \<open>null\<close> or a missing field.
\<close>

datatype status_type = StatusSuccess | StatusError | StatusIgnore

record conference_room =
  room_email :: string
  room_name :: string
  room_seats :: int
  room_floor :: string

text \<open>
  Of an event the front end reads the name of the room; \<open>seats\<close> and \<open>floor\<close> are the
  two fields an event shares with a room. The other fields of an event are not read.
\<close>

record event_response =
  ev_eventId :: "string option"
  ev_room :: "string option"
  ev_seats :: "int option"
  ev_floor :: "string option"

datatype payload =
    NoData
  | TextData string
  | NumberData int
  | RoomsData "conference_room list"
  | EventData event_response
  | EventsData "event_response list"
  | ListData "string list"

record envelope =
  status :: status_type
  message :: "string option"
  data :: payload

text \<open>
  The body of an HTTP answer, \<open>res.data\<close> or \<open>error.response.data\<close>. The source
  types it as an envelope, which is a cast and not a check: the body is whatever the back
  end or a proxy in front of it has sent, an envelope, a text (a plain or HTML error
  page), a number, a boolean, a JSON value of another shape, or nothing (\<open>undefined\<close>
  or \<open>null\<close>).
\<close>

datatype response_body =
    EmptyBody
  | JsonBody envelope
  | TextBody string
  | NumberBody int
  | BoolBody bool
  | OtherJson

text \<open>What \<open>if (res)\<close> tests on a body.\<close>

fun body_truthy :: "response_body \<Rightarrow> bool" where
  "body_truthy EmptyBody = False"
| "body_truthy (JsonBody e) = True"
| "body_truthy (TextBody s) = (s \<noteq> [])"
| "body_truthy (NumberBody k) = (k \<noteq> 0)"
| "body_truthy (BoolBody b) = b"
| "body_truthy OtherJson = True"

text \<open>What \<open>if (x)\<close> and \<open>!x\<close> test on a payload.\<close>

fun truthy :: "payload \<Rightarrow> bool" where
  "truthy NoData = False"
| "truthy (TextData s) = (s \<noteq> [])"
| "truthy (NumberData k) = (k \<noteq> 0)"
| "truthy _ = True"

record book_room_dto =
  dto_startTime :: string
  dto_duration :: int
  dto_seats :: int
  dto_floor :: "string option"
  dto_timeZone :: string
  dto_createConference :: "bool option"
  dto_title :: "string option"
  dto_room :: string
  dto_attendees :: "string list option"

record available_rooms_query =
  q_startTime :: string
  q_duration :: int
  q_timeZone :: string
  q_seats :: int
  q_floor :: "string option"
  q_eventId :: "string option"

datatype request_body =
    NoBody
  | AvailableRoomsParams available_rooms_query
  | EventsParams string string string
  | BookRoom book_room_dto
  | UpdateRoom string book_room_dto

datatype http_verb = GET | POST | PUT | DELETE

text \<open>
  The request object of the HTTP library: \<open>retry\<close> is the flag \<open>_retry\<close> the
  interceptor sets on it, \<open>signal\<close> the \<open>AbortController\<close> whose signal the request
  carries (controllers are numbered in the order of their creation).
\<close>

record request_config =
  verb :: http_verb
  url :: string
  req_body :: request_body
  retry :: bool
  signal :: "nat option"

record http_response =
  http_status :: nat
  body :: response_body

record error_response =
  err_status :: nat
  err_body :: response_body

text \<open>
  The error object the HTTP library rejects with: \<open>code\<close> is \<open>error.code\<close>,
  \<open>response\<close> is \<open>error.response\<close> (absent when no answer arrived) and \<open>config\<close> is
  \<open>error.config\<close>, the request that failed.
\<close>

record axios_error =
  code :: "string option"
  response :: "error_response option"
  config :: request_config

text \<open>A value that is thrown: an error of the HTTP library, or an error of the language.\<close>

datatype thrown = AxiosError axios_error | LanguageError js_error

text \<open>A settled promise.\<close>

datatype 'a promise = Resolved 'a | Rejected thrown

subsection \<open>The network and the world\<close>

text \<open>
  The back end is outside the program: the network gives the answer to the \<open>k\<close>-th HTTP
  call that reaches it, an answer with a status in the 2xx range, or a failure with the
  library's error code and the answer when there is one. The world is what the calls
  change: how many calls the network has answered, which abort controllers have been
  aborted and how many exist, and the log of the effects that leave the program (a
  request sent, a navigation, an error shown, a toast, the callback of the parent).
\<close>

datatype net_answer =
    Answer http_response
  | Failure "string option" "error_response option"

type_synonym network = "nat \<Rightarrow> net_answer"

datatype event =
    Sent request_config
  | Navigate string
  | RenderError response_body
  | ToastSuccess string
  | RoomBooked

record world =
  net_calls :: nat
  controllers :: nat
  aborted :: "nat list"
  events :: "event list"

definition emit :: "event \<Rightarrow> world \<Rightarrow> world" where
  "emit e w = w\<lparr>events := events w @ [e]\<rparr>"

text \<open>
  The adapter of the HTTP library: a request whose signal is aborted is rejected with the
  code \<open>ERR_CANCELED\<close> and no answer is read for it; any other request is sent and
  takes the next answer of the network.
\<close>

definition signal_aborted :: "request_config \<Rightarrow> world \<Rightarrow> bool" where
  "signal_aborted cfg w = (case signal cfg of Some c \<Rightarrow> c \<in> set (aborted w) | None \<Rightarrow> False)"

definition adapter :: "network \<Rightarrow> request_config \<Rightarrow> world \<Rightarrow> (axios_error + http_response) \<times> world" where
  "adapter net cfg w =
     (if signal_aborted cfg w
      then (Inl \<lparr>code = Some ''ERR_CANCELED'', response = None, config = cfg\<rparr>, w)
      else (let w' = emit (Sent cfg) (w\<lparr>net_calls := net_calls w + 1\<rparr>)
            in case net (net_calls w) of
                 Answer r \<Rightarrow> (Inr r, w')
               | Failure c r \<Rightarrow> (Inl \<lparr>code = c, response = r, config = cfg\<rparr>, w')))"

subsection \<open>The client, its interceptor and the token refresh\<close>

text \<open>
  The object \<open>Api\<close>: \<open>navigate\<close> is the optional function of the router given to the
  constructor (calling it is the effect \<open>Navigate\<close>). \<open>ROUTES.signIn\<close> is a constant of
  a module that is not part of the sources at hand; it is the field \<open>signIn\<close>.
\<close>

datatype navigate_function = NavigateFunction

record api =
  navigate :: "navigate_function option"
  signIn :: string

definition plain_request :: "http_verb \<Rightarrow> string \<Rightarrow> request_body \<Rightarrow> request_config" where
  "plain_request v u b = \<lparr>verb = v, url = u, req_body = b, retry = False, signal = None\<rparr>"

text \<open>
  \<open>refreshToken\<close> calls the HTTP library directly, not the client, so no interceptor runs
  on it: \<open>res.data.data\<close> of the answer, \<open>null\<close> on any failure. A body without a
  field \<open>data\<close> gives \<open>undefined\<close>, and reading the field of a missing body raises
  inside the \<open>try\<close>, which gives \<open>null\<close>: both are \<open>NoData\<close>.
\<close>

fun body_data :: "response_body \<Rightarrow> payload" where
  "body_data (JsonBody e) = data e"
| "body_data b = NoData"

definition refreshToken :: "network \<Rightarrow> world \<Rightarrow> payload \<times> world" where
  "refreshToken net w =
     (let w' = emit (Sent (plain_request GET ''/auth/token/refresh'' NoBody))
                 (w\<lparr>net_calls := net_calls w + 1\<rparr>)
      in case net (net_calls w) of
           Answer res \<Rightarrow> (body_data (body res), w')
         | Failure c r \<Rightarrow> (NoData, w'))"

definition is_401 :: "axios_error \<Rightarrow> bool" where
  "is_401 error = (case response error of Some r \<Rightarrow> err_status r = 401 | None \<Rightarrow> False)"

text \<open>
  \<open>client n\<close> is a request through \<open>this.client\<close> with the response interceptor of
  \<open>handleTokenRefresh\<close>: the adapter's answer passes through \<open>(response) => response\<close>,
  its error through the second handler. \<open>originalRequest\<close> is \<open>error.config\<close>, the
  request object itself, so setting \<open>_retry\<close> on it shows in the error that is rejected
  and in the request that is replayed. \<open>logout\<close> sends its request through the same
  client. The calls nest without a bound of their own, so both functions take fuel:
  \<open>None\<close> is a call that has not returned within \<open>n\<close> nested calls.
\<close>

fun client :: "nat \<Rightarrow> api \<Rightarrow> network \<Rightarrow> request_config \<Rightarrow> world \<Rightarrow> ((axios_error + http_response) \<times> world) option"
  and logout :: "nat \<Rightarrow> api \<Rightarrow> network \<Rightarrow> world \<Rightarrow> (bool \<times> world) option"
where
  "client 0 a net cfg w = None"
| "client (Suc n) a net cfg w =
     (case adapter net cfg w of
        (Inr res, w1) \<Rightarrow> Some (Inr res, w1)
      | (Inl error, w1) \<Rightarrow>
          (let originalRequest = config error
           in if is_401 error \<and> \<not> retry originalRequest
              then (let originalRequest = originalRequest\<lparr>retry := True\<rparr>;
                        error = error\<lparr>config := originalRequest\<rparr>;
                        (renewedToken, w2) = refreshToken net w1
                    in if \<not> truthy renewedToken
                       then (case logout n a net w2 of
                               None \<Rightarrow> None
                             | Some (done, w3) \<Rightarrow>
                                 Some (Inl error,
                                       (case navigate a of
                                          Some f \<Rightarrow> emit (Navigate (signIn a)) w3
                                        | None \<Rightarrow> w3)))
                       else client n a net originalRequest w2)
              else Some (Inl error, w1)))"
| "logout n a net w =
     (case client n a net (plain_request POST ''/auth/logout'' NoBody) w of
        None \<Rightarrow> None
      | Some (Inr res, w') \<Rightarrow> Some (True, w')
      | Some (Inl error, w') \<Rightarrow> Some (False, w'))"

text \<open>A request that the interceptor sends again carries the flag \<open>_retry\<close>.\<close>

fun is_replay :: "event \<Rightarrow> bool" where
  "is_replay (Sent c) = retry c"
| "is_replay e = False"


subsection \<open>The public operations\<close>

definition createReply :: "status_type \<Rightarrow> string option \<Rightarrow> payload \<Rightarrow> envelope" where
  "createReply st msg d = \<lparr>status = st, message = msg, data = d\<rparr>"

text \<open>
  \<open>handleError(error: any)\<close>: \<open>error.code\<close> and \<open>error?.response?.data\<close> of the thrown
  value; an error of the language has neither field. The body of the error's answer is
  returned as it is when it is truthy, whatever it is.
\<close>

definition thrown_code :: "thrown \<Rightarrow> string option" where
  "thrown_code error = (case error of AxiosError e \<Rightarrow> code e | LanguageError e \<Rightarrow> None)"

definition thrown_response_data :: "thrown \<Rightarrow> response_body" where
  "thrown_response_data error =
     (case error of
        AxiosError e \<Rightarrow> (case response e of Some r \<Rightarrow> err_body r | None \<Rightarrow> EmptyBody)
      | LanguageError e \<Rightarrow> EmptyBody)"

definition handleError :: "thrown \<Rightarrow> response_body" where
  "handleError error =
     (if thrown_code error = Some ''ERR_CANCELED''
      then JsonBody (createReply StatusIgnore (Some ''Pending request aborted'') NoData)
      else (let res = thrown_response_data error
            in if body_truthy res then res
               else JsonBody (createReply StatusError (Some ''Something went wrong'') NoData)))"

text \<open>
  Every public operation has the shape
  \<open>try { const res = await this.client...; return res.data } catch (error) { return this.handleError(error) }\<close>.
  \<open>await_client\<close> is the awaited request as a settled promise, \<open>try_catch\<close> the
  \<open>try\<close> block with its handler.
\<close>

definition await_client :: "nat \<Rightarrow> api \<Rightarrow> network \<Rightarrow> request_config \<Rightarrow> world \<Rightarrow> (http_response promise \<times> world) option" where
  "await_client n a net cfg w =
     (case client n a net cfg w of
        None \<Rightarrow> None
      | Some (Inr res, w') \<Rightarrow> Some (Resolved res, w')
      | Some (Inl error, w') \<Rightarrow> Some (Rejected (AxiosError error), w'))"

definition try_catch :: "'a promise \<Rightarrow> ('a \<Rightarrow> 'b promise) \<Rightarrow> (thrown \<Rightarrow> 'b promise) \<Rightarrow> 'b promise" where
  "try_catch p k h = (case p of Resolved x \<Rightarrow> k x | Rejected e \<Rightarrow> h e)"

definition api_request :: "nat \<Rightarrow> api \<Rightarrow> network \<Rightarrow> request_config \<Rightarrow> world \<Rightarrow> (response_body promise \<times> world) option" where
  "api_request n a net cfg w =
     (case await_client n a net cfg w of
        None \<Rightarrow> None
      | Some (p, w') \<Rightarrow>
          Some (try_catch p (\<lambda>res. Resolved (body res)) (\<lambda>error. Resolved (handleError error)), w'))"

definition getAvailableRooms :: "nat \<Rightarrow> api \<Rightarrow> network \<Rightarrow> nat \<Rightarrow> string \<Rightarrow> int \<Rightarrow> string \<Rightarrow> int \<Rightarrow> string option \<Rightarrow> string option \<Rightarrow> world \<Rightarrow> (response_body promise \<times> world) option" where
  "getAvailableRooms n a net sig startTime duration timeZone seats floor eventId w =
     (let params = \<lparr>q_startTime = startTime, q_duration = duration, q_timeZone = timeZone,
                     q_seats = seats, q_floor = floor, q_eventId = eventId\<rparr>
      in api_request n a net
           ((plain_request GET ''/api/rooms/available'' (AvailableRoomsParams params))\<lparr>signal := Some sig\<rparr>) w)"

definition getRooms :: "nat \<Rightarrow> api \<Rightarrow> network \<Rightarrow> string \<Rightarrow> string \<Rightarrow> string \<Rightarrow> world \<Rightarrow> (response_body promise \<times> world) option" where
  "getRooms n a net startTime endTime timeZone w =
     api_request n a net (plain_request GET ''/api/events'' (EventsParams startTime endTime timeZone)) w"

definition createEvent :: "nat \<Rightarrow> api \<Rightarrow> network \<Rightarrow> book_room_dto \<Rightarrow> world \<Rightarrow> (response_body promise \<times> world) option" where
  "createEvent n a net dto w =
     api_request n a net (plain_request POST ''/api/event'' (BookRoom dto)) w"

definition updateEvent :: "nat \<Rightarrow> api \<Rightarrow> network \<Rightarrow> string \<Rightarrow> book_room_dto \<Rightarrow> world \<Rightarrow> (response_body promise \<times> world) option" where
  "updateEvent n a net eventId dto w =
     api_request n a net (plain_request PUT ''/api/event'' (UpdateRoom eventId dto)) w"

definition deleteEvent :: "nat \<Rightarrow> api \<Rightarrow> network \<Rightarrow> string \<Rightarrow> world \<Rightarrow> (response_body promise \<times> world) option" where
  "deleteEvent n a net eventId w =
     api_request n a net (plain_request DELETE (''/api/event?id='' @ eventId) NoBody) w"

definition getMaxSeatCount :: "nat \<Rightarrow> api \<Rightarrow> network \<Rightarrow> world \<Rightarrow> (response_body promise \<times> world) option" where
  "getMaxSeatCount n a net w =
     api_request n a net (plain_request GET ''/api/rooms/highest-seat-count'' NoBody) w"

definition getFloors :: "nat \<Rightarrow> api \<Rightarrow> network \<Rightarrow> world \<Rightarrow> (response_body promise \<times> world) option" where
  "getFloors n a net w =
     api_request n a net (plain_request GET ''/api/floors'' NoBody) w"

subsection \<open>Example values\<close>

text \<open>
  A network that gives the answers of a list in order and fails with a network error
  afterwards, an empty world, and two clients, with and without the function of the
  router.
\<close>

definition script :: "net_answer list \<Rightarrow> network" where
  "script answers k = (if k < length answers then answers ! k else Failure (Some ''ERR_NETWORK'') None)"

definition unauthorized :: net_answer where
  "unauthorized =
     Failure (Some ''ERR_BAD_REQUEST'')
       (Some \<lparr>err_status = 401,
              err_body = JsonBody \<lparr>status = StatusError, message = Some ''Unauthorized'', data = NoData\<rparr>\<rparr>)"

definition ok_answer :: "payload \<Rightarrow> net_answer" where
  "ok_answer d =
     Answer \<lparr>http_status = 200, body = JsonBody \<lparr>status = StatusSuccess, message = None, data = d\<rparr>\<rparr>"

definition world0 :: world where
  "world0 = \<lparr>net_calls = 0, controllers = 0, aborted = [], events = []\<rparr>"

definition api_with_router :: api where
  "api_with_router = \<lparr>navigate = Some NavigateFunction, signIn = ''/sign-in''\<rparr>"

definition api_without_router :: api where
  "api_without_router = \<lparr>navigate = None, signIn = ''/sign-in''\<rparr>"

text \<open>
  A request for the floors, a network that answers it with 401, fails the token refresh
  and accepts the logout, and one that answers 401, refreshes the token and then
  answers the replayed request.
\<close>

definition floors_request :: request_config where
  "floors_request = plain_request GET ''/api/floors'' NoBody"

definition net_refresh_fails :: network where
  "net_refresh_fails = script [unauthorized, unauthorized, ok_answer NoData]"

definition net_refresh_succeeds :: network where
  "net_refresh_succeeds = script [unauthorized, ok_answer (TextData ''token''), ok_answer (ListData [''1'', ''2''])]"

text \<open>A network whose one answer is the text page of a proxy, with status 502.\<close>

definition net_bad_gateway :: network where
  "net_bad_gateway =
     script [Failure (Some ''ERR_BAD_RESPONSE'')
               (Some \<lparr>err_status = 502, err_body = TextBody ''Bad Gateway''\<rparr>)]"

section \<open>The booking view\<close>

subsection \<open>The state of the component\<close>

text \<open>
  The state hooks of \<open>BookRoomView\<close>, its form data and the reference to the abort
  controller of the availability request in flight. The options of the three plain
  dropdowns are their texts.
\<close>

record form_data =
  form_startTime :: string
  form_duration :: int
  form_seats :: int
  form_room :: "string option"
  form_title :: "string option"
  form_attendees :: "string list option"
  form_conference :: "bool option"

record preferences =
  pref_duration :: int
  pref_seats :: int
  pref_floor :: "string option"
  pref_title :: "string option"

text \<open>
  An option of the rooms dropdown. \<open>createRoomDropdownOptions\<close> reads four fields of
  every element of the list it is given; a field the element does not have is
  \<open>undefined\<close>, here \<open>None\<close>.
\<close>

record rooms_dropdown_option =
  opt_value :: "string option"
  opt_text :: "string option"
  opt_seats :: "int option"
  opt_floor :: "string option"

record view =
  bookClickLoading :: bool
  roomLoading :: bool
  loading :: bool
  initialPageLoad :: bool
  timeOptions :: "string list"
  durationOptions :: "string list"
  roomCapacityOptions :: "string list"
  availableRoomOptions :: "rooms_dropdown_option list"
  formData :: form_data
  abortControllerRef :: "nat option"

text \<open>
  An \<open>async\<close> function runs up to its first \<open>await\<close>, and again from there when the
  awaited promise has settled; other handlers run in between. Each part is a function of
  its own: it has returned, it has thrown (the promise of the \<open>async\<close> function is
  rejected), or it waits for a request with what the rest of the function needs.
\<close>

datatype 'a progress = Returned | Threw js_error | Awaiting 'a

text \<open>What \<open>!s\<close> tests on an optional string, and \<open>a || b\<close> on two of them.\<close>

definition falsy_string :: "string option \<Rightarrow> bool" where
  "falsy_string s = (s = None \<or> s = Some [])"

definition string_or :: "string option \<Rightarrow> string option \<Rightarrow> string option" where
  "string_or a b = (if falsy_string a then b else a)"

text \<open>\<open>new Date(Date.now()).toISOString().split('T')[0]\<close>: the date of today in UTC.\<close>

definition today :: "runtime \<Rightarrow> js_error + string" where
  "today rt =
     (case toISOString (TimeClip (date_now rt)) of
        Inl e \<Rightarrow> Inl e
      | Inr isoString \<Rightarrow> Inr (hd (split_on (CHR ''T'') isoString)))"

subsection \<open>Reading the result of an operation\<close>

text \<open>
  \<open>res.status\<close> of what an operation resolved with: reading a field of \<open>undefined\<close> or
  \<open>null\<close> raises, a value that is not an envelope has no such field.
\<close>

fun result_status :: "response_body \<Rightarrow> js_error + status_type option" where
  "result_status EmptyBody = Inl TypeError"
| "result_status (JsonBody e) = Inr (Some (status e))"
| "result_status b = Inr None"

text \<open>\<open>res.data\<close> of a result that is not \<open>undefined\<close> or \<open>null\<close>.\<close>

fun result_data :: "response_body \<Rightarrow> payload" where
  "result_data (JsonBody e) = data e"
| "result_data b = NoData"

definition createRoomDropdownOptions :: "conference_room list \<Rightarrow> rooms_dropdown_option list" where
  "createRoomDropdownOptions rooms =
     map (\<lambda>room. \<lparr>opt_value = Some (room_email room), opt_text = Some (room_name room),
                   opt_seats = Some (room_seats room), opt_floor = Some (room_floor room)\<rparr>) rooms"

text \<open>
  The lines of \<open>setAvailableRooms\<close> from \<open>const data = res.data as IConferenceRoom[]\<close> to
  the end of \<open>if (data.length > 0)\<close>: the pair of \<open>roomEmail\<close> and \<open>roomOptions\<close>. The
  cast is not a check, so the lines run on whatever the data is. \<open>null.length\<close> raises;
  a number or an event has no \<open>length\<close> and the test fails; a text that is not empty
  has no \<open>map\<close>, which raises; the elements of a list of texts or of events have no
  \<open>email\<close> and no \<open>name\<close>.
\<close>

fun room_selection :: "payload \<Rightarrow> js_error + (string option \<times> rooms_dropdown_option list)" where
  "room_selection (RoomsData rooms) =
     (if length rooms > 0 then Inr (Some (room_email (hd rooms)), createRoomDropdownOptions rooms)
      else Inr (None, []))"
| "room_selection NoData = Inl TypeError"
| "room_selection (NumberData k) = Inr (None, [])"
| "room_selection (EventData ev) = Inr (None, [])"
| "room_selection (TextData s) = (if length s > 0 then Inl TypeError else Inr (None, []))"
| "room_selection (ListData xs) =
     (if length xs > 0
      then Inr (None, map (\<lambda>x. \<lparr>opt_value = None, opt_text = None, opt_seats = None, opt_floor = None\<rparr>) xs)
      else Inr (None, []))"
| "room_selection (EventsData evs) =
     (if length evs > 0
      then Inr (None, map (\<lambda>ev. \<lparr>opt_value = None, opt_text = None, opt_seats = ev_seats ev,
                                   opt_floor = ev_floor ev\<rparr>) evs)
      else Inr (None, []))"

subsection \<open>setAvailableRooms\<close>

text \<open>
  What the availability request in flight carries: the arguments of
  \<open>api.getAvailableRooms\<close> and the \<open>formData\<close> of the render in which the function was
  called, which the rest of the function spreads into the new form data.
\<close>

record pending_query =
  pq_signal :: nat
  pq_startTime :: string
  pq_duration :: int
  pq_timeZone :: string
  pq_seats :: int
  pq_floor :: "string option"
  pq_formData :: form_data

text \<open>
  \<open>setAvailableRooms\<close> up to its \<open>await\<close>. \<open>fd\<close> is the \<open>formData\<close> of the closure,
  \<open>timeZone\<close> what \<open>getTimeZoneString()\<close> returns. \<open>abort()\<close> puts the controller among
  the aborted ones; \<open>new AbortController()\<close> is the next controller.
\<close>

definition setAvailableRooms_begin :: "runtime \<Rightarrow> string \<Rightarrow> preferences \<Rightarrow> form_data \<Rightarrow> view \<Rightarrow> world \<Rightarrow> pending_query progress \<times> view \<times> world" where
  "setAvailableRooms_begin rt timeZone prefs fd v w =
     (case today rt of
        Inl e \<Rightarrow> (Threw e, v, w)
      | Inr date \<Rightarrow>
          (case convertToRFC3339 rt date (form_startTime fd) of
             Inl e \<Rightarrow> (Threw e, v, w)
           | Inr formattedStartTime \<Rightarrow>
               (let v1 = v\<lparr>roomLoading := True\<rparr>;
                    w1 = (case abortControllerRef v1 of
                            Some c \<Rightarrow> w\<lparr>aborted := aborted w @ [c]\<rparr>
                          | None \<Rightarrow> w);
                    c' = controllers w1;
                    w2 = w1\<lparr>controllers := c' + 1\<rparr>;
                    v2 = v1\<lparr>abortControllerRef := Some c'\<rparr>
                in (Awaiting \<lparr>pq_signal = c', pq_startTime = formattedStartTime,
                              pq_duration = form_duration fd, pq_timeZone = timeZone,
                              pq_seats = form_seats fd, pq_floor = pref_floor prefs,
                              pq_formData = fd\<rparr>, v2, w2))))"

text \<open>The request of a pending query, through the client.\<close>

definition pending_request :: "nat \<Rightarrow> api \<Rightarrow> network \<Rightarrow> pending_query \<Rightarrow> world \<Rightarrow> (response_body promise \<times> world) option" where
  "pending_request n a net pq w =
     getAvailableRooms n a net (pq_signal pq) (pq_startTime pq) (pq_duration pq) (pq_timeZone pq)
       (pq_seats pq) (pq_floor pq) None w"

text \<open>
  \<open>setAvailableRooms\<close> from its \<open>await\<close> on, with the result \<open>res\<close> the request has
  resolved with (an operation of the client catches every error, its promise is not rejected).
  \<open>renderError\<close> is a helper that is not part of the sources at hand: calling it is the
  effect \<open>RenderError\<close>.
\<close>

definition setAvailableRooms_resume :: "pending_query \<Rightarrow> response_body \<Rightarrow> view \<Rightarrow> world \<Rightarrow> unit progress \<times> view \<times> world" where
  "setAvailableRooms_resume pq res v w =
     (let v1 = v\<lparr>roomLoading := False\<rparr>
      in case result_status res of
           Inl e \<Rightarrow> (Threw e, v1, w)
         | Inr st \<Rightarrow>
             if st = Some StatusIgnore then (Returned, v1, w)
             else if st = Some StatusError then (Returned, v1, emit (RenderError res) w)
             else (case room_selection (result_data res) of
                     Inl e \<Rightarrow> (Threw e, v1, w)
                   | Inr (roomEmail, roomOptions) \<Rightarrow>
                       (Returned,
                        v1\<lparr>formData := (pq_formData pq)\<lparr>form_room := roomEmail\<rparr>,
                           availableRoomOptions := roomOptions\<rparr>,
                        w)))"

subsection \<open>onBookClick\<close>

text \<open>
  \<open>onBookClick\<close> up to its \<open>await\<close>: \<open>fd\<close> is the \<open>formData\<close> of the closure. It
  waits for \<open>api.createEvent(payload)\<close> with the payload.
\<close>

definition onBookClick_begin :: "runtime \<Rightarrow> string \<Rightarrow> preferences \<Rightarrow> form_data \<Rightarrow> view \<Rightarrow> world \<Rightarrow> book_room_dto progress \<times> view \<times> world" where
  "onBookClick_begin rt timeZone prefs fd v w =
     (let v1 = v\<lparr>bookClickLoading := True\<rparr>
      in if falsy_string (form_room fd) then (Returned, v1, w)
         else (case today rt of
                 Inl e \<Rightarrow> (Threw e, v1, w)
               | Inr date \<Rightarrow>
                   (case convertToRFC3339 rt date (form_startTime fd) of
                      Inl e \<Rightarrow> (Threw e, v1, w)
                    | Inr formattedStartTime \<Rightarrow>
                        (Awaiting \<lparr>dto_startTime = formattedStartTime,
                                   dto_duration = form_duration fd,
                                   dto_seats = form_seats fd,
                                   dto_floor = string_or (pref_floor prefs) None,
                                   dto_timeZone = timeZone,
                                   dto_createConference = form_conference fd,
                                   dto_title = string_or (form_title fd) (pref_title prefs),
                                   dto_room = (case form_room fd of Some r \<Rightarrow> r | None \<Rightarrow> []),
                                   dto_attendees = form_attendees fd\<rparr>, v1, w))))"

text \<open>
  \<open>const { room: roomName } = data as EventResponse\<close>: destructuring \<open>null\<close> raises, a
  value that is not an event has no field \<open>room\<close>.
\<close>

fun booked_room :: "payload \<Rightarrow> js_error + string option" where
  "booked_room NoData = Inl TypeError"
| "booked_room (EventData ev) = Inr (ev_room ev)"
| "booked_room d = Inr None"

text \<open>
  \<open>onBookClick\<close> from its \<open>await\<close> on, with the result \<open>res\<close> of \<open>createEvent\<close>.
  Destructuring \<open>res\<close> comes before \<open>setBookClickLoading(false)\<close>. When the status is
  not \<open>success\<close> the function calls \<open>setAvailableRooms\<close> and waits for it, with \<open>res\<close>
  kept for \<open>renderError\<close>. The toast and the callback \<open>onRoomBooked\<close> of the parent are
  effects.
\<close>

definition onBookClick_resume :: "runtime \<Rightarrow> string \<Rightarrow> preferences \<Rightarrow> form_data \<Rightarrow> response_body \<Rightarrow> view \<Rightarrow> world \<Rightarrow> (pending_query \<times> response_body) progress \<times> view \<times> world" where
  "onBookClick_resume rt timeZone prefs fd res v w =
     (case result_status res of
        Inl e \<Rightarrow> (Threw e, v, w)
      | Inr st \<Rightarrow>
          (let v1 = v\<lparr>bookClickLoading := False\<rparr>
           in if st \<noteq> Some StatusSuccess
              then (case setAvailableRooms_begin rt timeZone prefs fd v1 w of
                      (Awaiting pq, v2, w2) \<Rightarrow> (Awaiting (pq, res), v2, w2)
                    | (Threw e, v2, w2) \<Rightarrow> (Threw e, v2, w2)
                    | (Returned, v2, w2) \<Rightarrow> (Returned, v2, w2))
              else (case booked_room (result_data res) of
                      Inl e \<Rightarrow> (Threw e, v1, w)
                    | Inr roomName \<Rightarrow>
                        (Returned,
                         v1\<lparr>availableRoomOptions := []\<rparr>,
                         emit RoomBooked
                           (emit (ToastSuccess ((case roomName of Some r \<Rightarrow> r | None \<Rightarrow> ''undefined'')
                                                @ '' has been booked!'')) w)))))"

text \<open>
  The end of \<open>onBookClick\<close> after a failed booking, when the \<open>setAvailableRooms\<close> it
  waited for has finished with \<open>p\<close>: \<open>return renderError(res, navigate)\<close>, unless
  \<open>setAvailableRooms\<close> has thrown.
\<close>

definition onBookClick_finish :: "response_body \<Rightarrow> unit progress \<Rightarrow> view \<Rightarrow> world \<Rightarrow> unit progress \<times> view \<times> world" where
  "onBookClick_finish res p v w =
     (case p of
        Threw e \<Rightarrow> (Threw e, v, w)
      | _ \<Rightarrow> (Returned, v, emit (RenderError res) w))"

subsection \<open>Example values of the view\<close>

text \<open>
  A view after its first load, with the start time 2:00 PM chosen and no room selected,
  the preferences of the user, and two rooms.
\<close>

definition form0 :: form_data where
  "form0 = \<lparr>form_startTime = ''2:00 PM'', form_duration = 30, form_seats = 4, form_room = None,
            form_title = None, form_attendees = None, form_conference = None\<rparr>"

definition view0 :: view where
  "view0 = \<lparr>bookClickLoading = False, roomLoading = False, loading = False, initialPageLoad = True,
            timeOptions = [''2:00 PM'', ''2:15 PM''], durationOptions = [''30'', ''60''],
            roomCapacityOptions = [''4'', ''8''], availableRoomOptions = [],
            formData = form0, abortControllerRef = None\<rparr>"

definition prefs0 :: preferences where
  "prefs0 = \<lparr>pref_duration = 30, pref_seats = 4, pref_floor = None, pref_title = Some ''Quick Meeting''\<rparr>"

definition two_rooms :: "conference_room list" where
  "two_rooms =
     [\<lparr>room_email = ''ada@rooms'', room_name = ''Ada'', room_seats = 4, room_floor = ''F1''\<rparr>,
      \<lparr>room_email = ''bob@rooms'', room_name = ''Bob'', room_seats = 8, room_floor = ''F2''\<rparr>]"

text \<open>
  Two availability queries, the second started while the first is in flight. The first is
  the one of the view after its first load. Then the user sets the duration to 60
  minutes: \<open>handleInputChange\<close> puts it into the form data, and the effect on
  \<open>formData.duration\<close> calls \<open>setAvailableRooms\<close> again, with the new form data in its
  closure. The back end answers a request that reaches it with the two rooms.
\<close>

definition form1 :: form_data where
  "form1 = form0\<lparr>form_duration := 60\<rparr>"

definition query1 :: pending_query where
  "query1 = \<lparr>pq_signal = 0, pq_startTime = ''2024-01-15T14:00:00+05:30'', pq_duration = 30,
             pq_timeZone = ''Asia/Kolkata'', pq_seats = 4, pq_floor = None, pq_formData = form0\<rparr>"

definition query2 :: pending_query where
  "query2 = \<lparr>pq_signal = 1, pq_startTime = ''2024-01-15T14:00:00+05:30'', pq_duration = 60,
             pq_timeZone = ''Asia/Kolkata'', pq_seats = 4, pq_floor = None, pq_formData = form1\<rparr>"

definition view1 :: view where
  "view1 = view0\<lparr>roomLoading := True, abortControllerRef := Some 0\<rparr>"

definition world1 :: world where
  "world1 = \<lparr>net_calls = 0, controllers = 1, aborted = [], events = []\<rparr>"

definition view2 :: view where
  "view2 = view0\<lparr>roomLoading := True, abortControllerRef := Some 1, formData := form1\<rparr>"

definition world2 :: world where
  "world2 = \<lparr>net_calls = 0, controllers = 2, aborted = [0], events = []\<rparr>"

definition net_two_rooms :: network where
  "net_two_rooms = script [ok_answer (RoomsData two_rooms)]"

definition ignored_result :: response_body where
  "ignored_result =
     JsonBody \<lparr>status = StatusIgnore, message = Some ''Pending request aborted'', data = NoData\<rparr>"

definition rooms_result :: response_body where
  "rooms_result = JsonBody \<lparr>status = StatusSuccess, message = None, data = RoomsData two_rooms\<rparr>"

section \<open>Properties of the time options\<close>

subsection \<open>Decimal rendering\<close>

lemma nat_digits_lt10: "n < 10 \<Longrightarrow> nat_digits n = [digit_char n]"
  by (simp add: nat_digits.simps)

lemma nat_digits_lt100:
  "10 \<le> n \<Longrightarrow> n < 100 \<Longrightarrow> nat_digits n = [digit_char (n div 10), digit_char (n mod 10)]"
  by (subst nat_digits.simps) (simp add: nat_digits_lt10)

lemma digit_char_0: "digit_char 0 = CHR ''0''"
  by (simp add: digit_char_def)

lemma smod_nonneg: "0 \<le> k \<Longrightarrow> 0 < l \<Longrightarrow> k smod l = k mod (l::int)"
  by (cases "k = 0") (simp_all add: signed_modulo_int_def)

lemma two_digit_number:
  assumes "0 \<le> m" "m < 100"
  shows "(if m < 10 then ''0'' @ number_to_string m else number_to_string m)
         = [digit_char (nat m div 10), digit_char (nat m mod 10)]"
proof (cases "m < 10")
  case True
  with assms have "nat m < 10" by simp
  then show ?thesis using True assms
    by (simp add: number_to_string_def nat_digits_lt10 digit_char_0)
next
  case False
  with assms have "10 \<le> nat m" "nat m < 100" by simp_all
  then show ?thesis using False assms
    by (simp add: number_to_string_def nat_digits_lt100)
qed

lemma formatTime_unfold:
  assumes "0 \<le> h" "0 \<le> m" "m < 100"
  shows "formatTime h m =
     number_to_string (if h mod 12 = 0 then 12 else h mod 12) @ '':'' @
     [digit_char (nat m div 10), digit_char (nat m mod 10)] @ '' '' @
     (if h < 12 then ''AM'' else ''PM'')"
proof -
  have "h smod 12 = h mod 12" using assms by (simp add: smod_nonneg)
  then show ?thesis
    using two_digit_number [OF assms(2,3)]
    by (simp add: formatTime_def Let_def del: append.simps)
qed

subsection \<open>formatTime\<close>

text \<open>
  Claim C9. For every hour \<open>h\<close> in \<open>[0, 23]\<close> and minute \<open>m\<close> in \<open>[0, 59]\<close>,
  \<open>formatTime h m\<close> is the displayed hour, a colon, the minute in two digits (so a minute
  below 10 has a leading zero), a space and the period. The displayed hour is 12 for
  \<open>h = 0\<close> and for \<open>h = 12\<close>; the period is AM when the hour passed in is below 12 and
  PM otherwise. In particular \<open>formatTime 0 0\<close> is "12:00 AM", \<open>formatTime 12 0\<close> is
  "12:00 PM" and \<open>formatTime 13 5\<close> is "1:05 PM".
\<close>

theorem formatTime_display:
  assumes "0 \<le> h" "h \<le> 23" "0 \<le> m" "m \<le> 59"
  shows "formatTime h m =
           number_to_string (if h = 0 \<or> h = 12 then 12 else if h < 12 then h else h - 12) @ '':'' @
           [digit_char (nat m div 10), digit_char (nat m mod 10)] @ '' '' @
           (if h < 12 then ''AM'' else ''PM'')
         \<and> number_to_string 12 = ''12''
         \<and> digit_char 0 = CHR ''0''
         \<and> formatTime 0 0 = ''12:00 AM''
         \<and> formatTime 12 0 = ''12:00 PM''
         \<and> formatTime 13 5 = ''1:05 PM''"
proof -
  have hm: "(if h mod 12 = 0 then 12 else h mod 12) = (if h = 0 \<or> h = 12 then 12 else if h < 12 then h else h - 12)"
  proof (cases "h < 12")
    case True
    then show ?thesis using assms by simp
  next
    case False
    have "(h - 12) mod 12 = h - 12"
      by (rule mod_pos_pos_trivial) (use False assms in simp_all)
    moreover have "h mod 12 = (h - 12) mod 12" by simp
    ultimately have "h mod 12 = h - 12" by (simp only:)
    then show ?thesis using False by auto
  qed
  have a: "formatTime h m =
           number_to_string (if h = 0 \<or> h = 12 then 12 else if h < 12 then h else h - 12) @ '':'' @
           [digit_char (nat m div 10), digit_char (nat m mod 10)] @ '' '' @
           (if h < 12 then ''AM'' else ''PM'')"
    using formatTime_unfold [of h m] assms unfolding hm by simp
  have b: "number_to_string 12 = ''12''" by code_simp
  have c: "formatTime 0 0 = ''12:00 AM''" by code_simp
  have d: "formatTime 12 0 = ''12:00 PM''" by code_simp
  have e: "formatTime 13 5 = ''1:05 PM''" by code_simp
  from a b c d e digit_char_0 show ?thesis by blast
qed

theorem formatTime_display_witness:
  "formatTime 9 7 = ''9:07 AM'' \<and> formatTime 23 59 = ''11:59 PM''"
proof -
  have n9: "number_to_string 9 = ''9''" by code_simp
  have n11: "number_to_string 11 = ''11''" by code_simp
  have d: "digit_char 0 = CHR ''0''" "digit_char 7 = CHR ''7''" "digit_char 5 = CHR ''5''" "digit_char 9 = CHR ''9''"
    by (simp_all add: digit_char_def)
  have "formatTime 9 7 = ''9:07 AM''"
    using formatTime_display [of 9 7] n9 d by simp
  moreover have "formatTime 23 59 = ''11:59 PM''"
    using formatTime_display [of 23 59] n11 d by simp
  ultimately show ?thesis by simp
qed

subsection \<open>The loop of populateTimeOptions\<close>


lemma slot_minutes: "toMinutesSinceMidnight (i div 4) ((i mod 4) * 15) = 15 * i"
  by (simp add: toMinutesSinceMidnight_def) presburger

lemma populate_loop_eq:
  "0 \<le> i \<Longrightarrow> populate_loop c i acc =
     acc @ map (\<lambda>j. formatTime (j div 4) ((j mod 4) * 15)) (filter (\<lambda>j. c \<le> 15 * j) [i..95])"
proof (induction c i acc rule: populate_loop.induct)
  case (1 c i acc)
  show ?case
  proof (cases "i < 24 * 4")
    case True
    then have up: "[i..95] = i # [i + 1..95]" by (simp add: upto_rec1)
    have sm: "i smod 4 = i mod 4" using "1.prems" by (simp add: smod_nonneg)
    let ?f = "\<lambda>j. formatTime (j div 4) ((j mod 4) * 15)"
    let ?rest = "map ?f (filter (\<lambda>j. c \<le> 15 * j) [i + 1..95])"
    show ?thesis
    proof (cases "c \<le> 15 * i")
      case ge: True
      have "populate_loop c i acc = populate_loop c (i + 1) (acc @ [?f i])"
        using True ge by (subst populate_loop.simps) (simp add: Let_def sm slot_minutes)
      also have "\<dots> = (acc @ [?f i]) @ ?rest"
        using "1.IH" [OF True refl refl refl refl] "1.prems" ge
        by (simp add: sm slot_minutes)
      finally show ?thesis unfolding up using ge by simp
    next
      case lt: False
      have "populate_loop c i acc = populate_loop c (i + 1) acc"
        using True lt by (subst populate_loop.simps) (simp add: Let_def sm slot_minutes)
      also have "\<dots> = acc @ ?rest"
        using "1.IH" [OF True refl refl refl refl] "1.prems" lt
        by (simp add: sm slot_minutes)
      finally show ?thesis unfolding up using lt by simp
    qed
  next
    case False
    then have "[i..95] = []" by simp
    with False show ?thesis by (subst populate_loop.simps) simp
  qed
qed

lemma filter_upto_ge: "a \<le> k \<Longrightarrow> filter (\<lambda>j. k \<le> j) [a..b] = [k..b]"
proof (induction "nat (k - a)" arbitrary: a)
  case 0
  then have "a = k" by simp
  then show ?case by (simp add: filter_id_conv)
next
  case (Suc n)
  then have lt: "a < k" by simp
  show ?case
  proof (cases "a \<le> b")
    case True
    then have "[a..b] = a # [a + 1..b]" by (simp add: upto_rec1)
    moreover have "filter (\<lambda>j. k \<le> j) [a + 1..b] = [k..b]"
      using Suc lt by (intro Suc.hyps(1)) simp_all
    ultimately show ?thesis using lt by simp
  next
    case False
    then show ?thesis using lt by simp
  qed
qed

lemma populateTimeOptions_index:
  assumes "0 \<le> h" "0 \<le> m" "m \<le> 59"
  shows "populateTimeOptions h m =
     map (\<lambda>j. formatTime (j div 4) ((j mod 4) * 15)) [4 * h + m div 15..95]"
proof -
  have ne: "m div 15 * 15 \<noteq> 60" using assms by presburger
  have k: "0 \<le> 4 * h + m div 15" using assms by simp
  have "(\<lambda>j. toMinutesSinceMidnight h (m div 15 * 15) \<le> 15 * j) = (\<lambda>j. 4 * h + m div 15 \<le> j)"
    by (rule ext) (simp add: toMinutesSinceMidnight_def, presburger)
  then show ?thesis
    using ne k by (simp add: populateTimeOptions_def Let_def populate_loop_eq filter_upto_ge)
qed


lemma upto_as_map: "[k..b] = map (\<lambda>n. k + int n) [0..<nat (b - k + 1)]"
  by (rule nth_equalityI) simp_all

lemma quarter_slot_filter:
  assumes "0 \<le> k"
  shows "filter (\<lambda>t. 15 * k \<le> t) (map (\<lambda>j. 15 * j) [0..95]) = map (\<lambda>j. 15 * j) [k..95]"
proof -
  have "filter (\<lambda>t. 15 * k \<le> t) (map (\<lambda>j. 15 * j) [0..95])
        = map (\<lambda>j. 15 * j) (filter (\<lambda>j. k \<le> j) [0..95])"
    by (simp add: filter_map comp_def)
  then show ?thesis using assms by (simp add: filter_upto_ge)
qed

lemma quarter_slot_display:
  "map (\<lambda>t. formatTime (t div 60) (t mod 60)) (map (\<lambda>j. 15 * j) js)
   = map (\<lambda>j. formatTime (j div 4) ((j mod 4) * 15)) js"
proof -
  have "(15 * j) div (15 * 4) = j div 4" "(15 * j) mod (15 * 4) = 15 * (j mod 4)" for j :: int
    by (simp_all only: div_mult_mult1 mod_mult_mult1)
  then have "(15 * j) div 60 = j div 4" "(15 * j) mod 60 = (j mod 4) * 15" for j :: int
    by simp_all
  then show ?thesis by simp
qed

lemma floor_index:
  "15 * (toMinutesSinceMidnight h m div 15) = 15 * (4 * h + m div 15)"
proof -
  have "(m + (4 * h) * 15) div 15 = 4 * h + m div 15" by simp
  moreover have "h * 60 + m = m + (4 * h) * 15" by simp
  ultimately have "(h * 60 + m) div 15 = 4 * h + m div 15" by (simp only:)
  then show ?thesis unfolding toMinutesSinceMidnight_def by (simp only:)
qed

lemma display_distinct:
  "distinct (map (\<lambda>t. formatTime (t div 60) (t mod 60)) (map (\<lambda>j. 15 * j) [0..95]))"
  by code_simp

lemma upto_drop: "0 \<le> k \<Longrightarrow> [k..b] = drop (nat k) [0..b]"
  by (rule nth_equalityI) (simp_all add: nat_diff_distrib nat_add_distrib)

lemma quarter_displays:
  "map (\<lambda>j. formatTime (j div 4) ((j mod 4) * 15)) [0..95] =
     [''12:00 AM'', ''12:15 AM'', ''12:30 AM'', ''12:45 AM'', ''1:00 AM'', ''1:15 AM'', ''1:30 AM'', ''1:45 AM'',
      ''2:00 AM'', ''2:15 AM'', ''2:30 AM'', ''2:45 AM'', ''3:00 AM'', ''3:15 AM'', ''3:30 AM'', ''3:45 AM'',
      ''4:00 AM'', ''4:15 AM'', ''4:30 AM'', ''4:45 AM'', ''5:00 AM'', ''5:15 AM'', ''5:30 AM'', ''5:45 AM'',
      ''6:00 AM'', ''6:15 AM'', ''6:30 AM'', ''6:45 AM'', ''7:00 AM'', ''7:15 AM'', ''7:30 AM'', ''7:45 AM'',
      ''8:00 AM'', ''8:15 AM'', ''8:30 AM'', ''8:45 AM'', ''9:00 AM'', ''9:15 AM'', ''9:30 AM'', ''9:45 AM'',
      ''10:00 AM'', ''10:15 AM'', ''10:30 AM'', ''10:45 AM'', ''11:00 AM'', ''11:15 AM'', ''11:30 AM'', ''11:45 AM'',
      ''12:00 PM'', ''12:15 PM'', ''12:30 PM'', ''12:45 PM'', ''1:00 PM'', ''1:15 PM'', ''1:30 PM'', ''1:45 PM'',
      ''2:00 PM'', ''2:15 PM'', ''2:30 PM'', ''2:45 PM'', ''3:00 PM'', ''3:15 PM'', ''3:30 PM'', ''3:45 PM'',
      ''4:00 PM'', ''4:15 PM'', ''4:30 PM'', ''4:45 PM'', ''5:00 PM'', ''5:15 PM'', ''5:30 PM'', ''5:45 PM'',
      ''6:00 PM'', ''6:15 PM'', ''6:30 PM'', ''6:45 PM'', ''7:00 PM'', ''7:15 PM'', ''7:30 PM'', ''7:45 PM'',
      ''8:00 PM'', ''8:15 PM'', ''8:30 PM'', ''8:45 PM'', ''9:00 PM'', ''9:15 PM'', ''9:30 PM'', ''9:45 PM'',
      ''10:00 PM'', ''10:15 PM'', ''10:30 PM'', ''10:45 PM'', ''11:00 PM'', ''11:15 PM'', ''11:30 PM'', ''11:45 PM'']"
  by code_simp

lemma populateTimeOptions_drop:
  assumes "0 \<le> h" "0 \<le> m" "m \<le> 59"
  shows "populateTimeOptions h m =
           drop (nat (4 * h + m div 15)) (map (\<lambda>j. formatTime (j div 4) ((j mod 4) * 15)) [0..95])"
proof -
  have k0: "0 \<le> 4 * h + m div 15" using assms by simp
  show ?thesis
    unfolding populateTimeOptions_index [OF assms] upto_drop [OF k0, of 95] by (simp only: drop_map)
qed

lemma floor_quarter: "(h * 60 + m) div 15 = 4 * h + m div (15 :: int)"
proof -
  have "(m + (4 * h) * 15) div 15 = 4 * h + m div 15" by simp
  moreover have "h * 60 + m = m + (4 * h) * 15" by simp
  ultimately show ?thesis by (simp only:)
qed

subsection \<open>populateTimeOptions\<close>

text \<open>
  Claim C8. For every call time (hour \<open>h\<close>, minute \<open>m\<close> of the clock, \<open>now = h * 60 + m\<close>
  minutes since midnight), \<open>populateTimeOptions\<close> returns exactly the quarter-hour slots
  of the day that are at or after the 15-minute floor \<open>f = 15 * (now div 15)\<close> of the call
  time. The slots are \<open>f, f + 15, f + 30, ...\<close>, strictly increasing in steps of 15
  minutes, the last slot is 23:45 (minute 1425), and the list is never empty. The result
  is the list of their displays: the display of the slot at minute \<open>t\<close> is the entry
  \<open>t div 15\<close> of the 96 displays of a day, from \<open>12:00 AM\<close> to \<open>11:45 PM\<close>, which are
  pairwise different; so the result is the list of the 96 displays without its first
  \<open>f div 15\<close> entries, and its last entry is \<open>11:45 PM\<close>.
\<close>

theorem populateTimeOptions_slots:
  assumes "0 \<le> h" "h \<le> 23" "0 \<le> m" "m \<le> 59"
  shows "let now = h * 60 + m;
             f = 15 * (now div 15);
             n = nat ((1440 - f) div 15);
             slots = map (\<lambda>i. f + 15 * int i) [0..<n];
             quarters =
               [''12:00 AM'', ''12:15 AM'', ''12:30 AM'', ''12:45 AM'', ''1:00 AM'', ''1:15 AM'', ''1:30 AM'', ''1:45 AM'',
                ''2:00 AM'', ''2:15 AM'', ''2:30 AM'', ''2:45 AM'', ''3:00 AM'', ''3:15 AM'', ''3:30 AM'', ''3:45 AM'',
                ''4:00 AM'', ''4:15 AM'', ''4:30 AM'', ''4:45 AM'', ''5:00 AM'', ''5:15 AM'', ''5:30 AM'', ''5:45 AM'',
                ''6:00 AM'', ''6:15 AM'', ''6:30 AM'', ''6:45 AM'', ''7:00 AM'', ''7:15 AM'', ''7:30 AM'', ''7:45 AM'',
                ''8:00 AM'', ''8:15 AM'', ''8:30 AM'', ''8:45 AM'', ''9:00 AM'', ''9:15 AM'', ''9:30 AM'', ''9:45 AM'',
                ''10:00 AM'', ''10:15 AM'', ''10:30 AM'', ''10:45 AM'', ''11:00 AM'', ''11:15 AM'', ''11:30 AM'', ''11:45 AM'',
                ''12:00 PM'', ''12:15 PM'', ''12:30 PM'', ''12:45 PM'', ''1:00 PM'', ''1:15 PM'', ''1:30 PM'', ''1:45 PM'',
                ''2:00 PM'', ''2:15 PM'', ''2:30 PM'', ''2:45 PM'', ''3:00 PM'', ''3:15 PM'', ''3:30 PM'', ''3:45 PM'',
                ''4:00 PM'', ''4:15 PM'', ''4:30 PM'', ''4:45 PM'', ''5:00 PM'', ''5:15 PM'', ''5:30 PM'', ''5:45 PM'',
                ''6:00 PM'', ''6:15 PM'', ''6:30 PM'', ''6:45 PM'', ''7:00 PM'', ''7:15 PM'', ''7:30 PM'', ''7:45 PM'',
                ''8:00 PM'', ''8:15 PM'', ''8:30 PM'', ''8:45 PM'', ''9:00 PM'', ''9:15 PM'', ''9:30 PM'', ''9:45 PM'',
                ''10:00 PM'', ''10:15 PM'', ''10:30 PM'', ''10:45 PM'', ''11:00 PM'', ''11:15 PM'', ''11:30 PM'', ''11:45 PM'']
         in toMinutesSinceMidnight h m = now
          \<and> populateTimeOptions h m = map (\<lambda>t. quarters ! nat (t div 15)) slots
          \<and> populateTimeOptions h m = drop (nat (f div 15)) quarters
          \<and> slots = filter (\<lambda>t. f \<le> t) (map (\<lambda>j. 15 * j) [0..95])
          \<and> length quarters = 96
          \<and> distinct quarters
          \<and> quarters = map (\<lambda>t. formatTime (t div 60) (t mod 60)) (map (\<lambda>j. 15 * j) [0..95])
          \<and> 0 < n
          \<and> length (populateTimeOptions h m) = n
          \<and> f + 15 * (int n - 1) = 23 * 60 + 45
          \<and> last slots = 23 * 60 + 45
          \<and> last (populateTimeOptions h m) = ''11:45 PM''"
proof -
  define k where "k = 4 * h + m div 15"
  define f where "f = 15 * ((h * 60 + m) div 15)"
  define n where "n = nat ((1440 - f) div 15)"
  define slots where "slots = map (\<lambda>i. f + 15 * int i) [0..<n]"
  define quarters where "quarters = map (\<lambda>j. formatTime (j div 4) ((j mod 4) * 15)) [0..95]"
  have k0: "0 \<le> k" and k95: "k \<le> 95" using assms unfolding k_def by presburger+
  have f: "f = 15 * k"
    unfolding f_def k_def by (simp only: floor_quarter)
  have fk: "f div 15 = k" unfolding f by simp
  have "1440 - 15 * k = 15 * (96 - k)" by simp
  then have "(1440 - 15 * k) div 15 = 96 - k" by simp
  then have n: "n = nat (96 - k)" unfolding n_def f by simp
  have len: "length quarters = 96" unfolding quarters_def by simp
  have qd: "quarters = map (\<lambda>t. formatTime (t div 60) (t mod 60)) (map (\<lambda>j. 15 * j) [0..95])"
    unfolding quarters_def by (simp only: quarter_slot_display)
  have dist: "distinct quarters" unfolding qd by (rule display_distinct)
  have now: "toMinutesSinceMidnight h m = h * 60 + m" by (simp add: toMinutesSinceMidnight_def)
  have dr: "populateTimeOptions h m = drop (nat (f div 15)) quarters"
    unfolding fk quarters_def k_def using assms by (intro populateTimeOptions_drop) simp_all
  have lenp: "length (populateTimeOptions h m) = n"
    unfolding dr fk n using len k0 k95 by (simp add: nat_diff_distrib)
  have sl: "slots = filter (\<lambda>t. f \<le> t) (map (\<lambda>j. 15 * j) [0..95])"
  proof -
    have "map (\<lambda>j. 15 * j) [k..95] = map (\<lambda>i. 15 * k + 15 * int i) [0..<nat (96 - k)]"
      unfolding upto_as_map [of k 95] by (simp add: algebra_simps)
    then show ?thesis
      unfolding slots_def n f quarter_slot_filter [OF k0] by (simp only:)
  qed
  have pos: "0 < n" using k95 unfolding n by simp
  have lastf: "f + 15 * (int n - 1) = 23 * 60 + 45"
    using k95 unfolding n f by simp
  have lasts: "last slots = 23 * 60 + 45"
  proof -
    have ne: "slots \<noteq> []" using pos unfolding slots_def by simp
    have "last slots = slots ! (n - 1)"
      unfolding last_conv_nth [OF ne] unfolding slots_def by simp
    also have "\<dots> = f + 15 * int (n - 1)" using pos unfolding slots_def by simp
    also have "\<dots> = f + 15 * (int n - 1)" using pos by (simp add: of_nat_diff)
    finally show ?thesis using lastf by simp
  qed
  have mp: "populateTimeOptions h m = map (\<lambda>t. quarters ! nat (t div 15)) slots"
  proof (rule nth_equalityI)
    show "length (populateTimeOptions h m) = length (map (\<lambda>t. quarters ! nat (t div 15)) slots)"
      unfolding lenp slots_def by simp
  next
    fix i assume "i < length (populateTimeOptions h m)"
    then have i: "i < n" unfolding lenp .
    have "15 * k + 15 * int i = (k + int i) * 15" by simp
    then have "(15 * k + 15 * int i) div 15 = k + int i" by (simp only: div_mult_self_is_m)
    then have "nat ((f + 15 * int i) div 15) = nat k + i"
      unfolding f using k0 by (simp add: nat_add_distrib)
    moreover have "nat k + i \<le> length quarters" using i k0 unfolding n len by simp
    ultimately show "populateTimeOptions h m ! i = map (\<lambda>t. quarters ! nat (t div 15)) slots ! i"
      unfolding dr fk slots_def using i by simp
  qed
  have "quarters \<noteq> []" using len by auto
  moreover have "nat (f div 15) < length quarters" unfolding fk len using k95 k0 by simp
  ultimately have "last (populateTimeOptions h m) = last quarters"
    unfolding dr by simp
  then have lastp: "last (populateTimeOptions h m) = ''11:45 PM''"
    unfolding quarters_def quarter_displays by simp
  have "toMinutesSinceMidnight h m = h * 60 + m
          \<and> populateTimeOptions h m = map (\<lambda>t. quarters ! nat (t div 15)) slots
          \<and> populateTimeOptions h m = drop (nat (f div 15)) quarters
          \<and> slots = filter (\<lambda>t. f \<le> t) (map (\<lambda>j. 15 * j) [0..95])
          \<and> length quarters = 96
          \<and> distinct quarters
          \<and> quarters = map (\<lambda>t. formatTime (t div 60) (t mod 60)) (map (\<lambda>j. 15 * j) [0..95])
          \<and> 0 < n
          \<and> length (populateTimeOptions h m) = n
          \<and> f + 15 * (int n - 1) = 23 * 60 + 45
          \<and> last slots = 23 * 60 + 45
          \<and> last (populateTimeOptions h m) = ''11:45 PM''"
    using now mp dr sl len dist qd pos lenp lastf lasts lastp by (intro conjI)
  then show ?thesis
    unfolding Let_def quarters_def quarter_displays slots_def n_def f_def .
qed

text \<open>
  The theorem ten minutes before midnight and one minute before eleven at night: the
  floors are 23:45 and 22:45, and the options are the one slot and the five slots left.
\<close>

theorem populateTimeOptions_slots_witness:
  "populateTimeOptions 23 50 = [''11:45 PM'']
   \<and> populateTimeOptions 22 59 = [''10:45 PM'', ''11:00 PM'', ''11:15 PM'', ''11:30 PM'', ''11:45 PM'']"
proof -
  have "populateTimeOptions 23 50 = [''11:45 PM'']"
    using populateTimeOptions_slots [of 23 50, unfolded Let_def, THEN conjunct2, THEN conjunct2, THEN conjunct1]
    by simp
  moreover have "populateTimeOptions 22 59 = [''10:45 PM'', ''11:00 PM'', ''11:15 PM'', ''11:30 PM'', ''11:45 PM'']"
    using populateTimeOptions_slots [of 22 59, unfolded Let_def, THEN conjunct2, THEN conjunct2, THEN conjunct1]
    by simp
  ultimately show ?thesis by (intro conjI)
qed

text \<open>
  Claim C7, as amended. The source rounds the clock down, not up: every string emitted by
  \<open>populateTimeOptions\<close> is the display of a quarter-hour slot at or after the call time
  rounded down to the quarter-hour, so a slot is less than 15 minutes before the call
  time; the first option is the slot that contains the call time. The 96 displays are
  pairwise different, so a display string denotes one slot. With the call time written
  as \<open>now = h * 60 + m\<close> minutes since midnight and the 96 displays written out: every
  emitted string is the display of a slot \<open>15 * j\<close> with \<open>15 * (now div 15) \<le> 15 * j\<close> and
  \<open>now - 15 < 15 * j\<close>, and the first option is the display of the slot \<open>15 * (now div 15)\<close>.
\<close>

theorem populateTimeOptions_floor:
  assumes "0 \<le> h" "h \<le> 23" "0 \<le> m" "m \<le> 59"
  shows "(\<forall>s \<in> set (populateTimeOptions h m).
            \<exists>t \<in> set (map (\<lambda>j. 15 * j) [0..95]).
               s = formatTime (t div 60) (t mod 60)
             \<and> 15 * (toMinutesSinceMidnight h m div 15) \<le> t
             \<and> toMinutesSinceMidnight h m - 15 < t)
       \<and> distinct (map (\<lambda>t. formatTime (t div 60) (t mod 60)) (map (\<lambda>j. 15 * j) [0..95]))
       \<and> hd (populateTimeOptions h m) =
            formatTime (15 * (toMinutesSinceMidnight h m div 15) div 60)
                       (15 * (toMinutesSinceMidnight h m div 15) mod 60)
       \<and> toMinutesSinceMidnight h m = h * 60 + m
       \<and> (let now = h * 60 + m;
               quarters =
                 [''12:00 AM'', ''12:15 AM'', ''12:30 AM'', ''12:45 AM'', ''1:00 AM'', ''1:15 AM'', ''1:30 AM'', ''1:45 AM'',
                  ''2:00 AM'', ''2:15 AM'', ''2:30 AM'', ''2:45 AM'', ''3:00 AM'', ''3:15 AM'', ''3:30 AM'', ''3:45 AM'',
                  ''4:00 AM'', ''4:15 AM'', ''4:30 AM'', ''4:45 AM'', ''5:00 AM'', ''5:15 AM'', ''5:30 AM'', ''5:45 AM'',
                  ''6:00 AM'', ''6:15 AM'', ''6:30 AM'', ''6:45 AM'', ''7:00 AM'', ''7:15 AM'', ''7:30 AM'', ''7:45 AM'',
                  ''8:00 AM'', ''8:15 AM'', ''8:30 AM'', ''8:45 AM'', ''9:00 AM'', ''9:15 AM'', ''9:30 AM'', ''9:45 AM'',
                  ''10:00 AM'', ''10:15 AM'', ''10:30 AM'', ''10:45 AM'', ''11:00 AM'', ''11:15 AM'', ''11:30 AM'', ''11:45 AM'',
                  ''12:00 PM'', ''12:15 PM'', ''12:30 PM'', ''12:45 PM'', ''1:00 PM'', ''1:15 PM'', ''1:30 PM'', ''1:45 PM'',
                  ''2:00 PM'', ''2:15 PM'', ''2:30 PM'', ''2:45 PM'', ''3:00 PM'', ''3:15 PM'', ''3:30 PM'', ''3:45 PM'',
                  ''4:00 PM'', ''4:15 PM'', ''4:30 PM'', ''4:45 PM'', ''5:00 PM'', ''5:15 PM'', ''5:30 PM'', ''5:45 PM'',
                  ''6:00 PM'', ''6:15 PM'', ''6:30 PM'', ''6:45 PM'', ''7:00 PM'', ''7:15 PM'', ''7:30 PM'', ''7:45 PM'',
                  ''8:00 PM'', ''8:15 PM'', ''8:30 PM'', ''8:45 PM'', ''9:00 PM'', ''9:15 PM'', ''9:30 PM'', ''9:45 PM'',
                  ''10:00 PM'', ''10:15 PM'', ''10:30 PM'', ''10:45 PM'', ''11:00 PM'', ''11:15 PM'', ''11:30 PM'', ''11:45 PM'']
           in (\<forall>s \<in> set (populateTimeOptions h m).
                  \<exists>j < 96. s = quarters ! j \<and> 15 * (now div 15) \<le> 15 * int j \<and> now - 15 < 15 * int j)
            \<and> hd (populateTimeOptions h m) = quarters ! nat (now div 15)
            \<and> distinct quarters
            \<and> quarters = map (\<lambda>t. formatTime (t div 60) (t mod 60)) (map (\<lambda>j. 15 * j) [0..95]))"
proof -
  define k where "k = 4 * h + m div 15"
  define f where "f = 15 * (toMinutesSinceMidnight h m div 15)"
  define quarters where "quarters = map (\<lambda>j. formatTime (j div 4) ((j mod 4) * 15)) [0..95]"
  have k0: "0 \<le> k" and k95: "k \<le> 95" using assms unfolding k_def by presburger+
  have f: "f = 15 * k" unfolding f_def k_def using floor_index by simp
  have near: "toMinutesSinceMidnight h m - 15 < f"
    unfolding f_def by (simp add: algebra_simps)
  have idx: "populateTimeOptions h m = map (\<lambda>j. formatTime (j div 4) ((j mod 4) * 15)) [k..95]"
    unfolding k_def using assms by (intro populateTimeOptions_index) simp_all
  then have eq: "populateTimeOptions h m =
      map (\<lambda>t. formatTime (t div 60) (t mod 60)) (map (\<lambda>j. 15 * j) [k..95])"
    by (simp only: quarter_slot_display)
  have a: "\<exists>t \<in> set (map (\<lambda>j. 15 * j) [0..95]).
               s = formatTime (t div 60) (t mod 60) \<and> f \<le> t \<and> toMinutesSinceMidnight h m - 15 < t"
    if "s \<in> set (populateTimeOptions h m)" for s
  proof -
    from that obtain j where j: "k \<le> j" "j \<le> 95" and s: "s = formatTime (15 * j div 60) (15 * j mod 60)"
      unfolding eq by auto
    have "15 * j \<in> set (map (\<lambda>j. 15 * j) [0..95])" using j k0 by simp
    moreover have "f \<le> 15 * j" using j f by simp
    moreover have "toMinutesSinceMidnight h m - 15 < 15 * j" using near \<open>f \<le> 15 * j\<close> by simp
    ultimately show ?thesis using s by (intro bexI [of _ "15 * j"] conjI)
  qed
  have "[k..95] = k # [k + 1..95]" using k95 by (simp add: upto_rec1)
  then have c: "hd (populateTimeOptions h m) = formatTime (f div 60) (f mod 60)"
    unfolding eq f by simp
  have A: "\<forall>s \<in> set (populateTimeOptions h m).
            \<exists>t \<in> set (map (\<lambda>j. 15 * j) [0..95]).
               s = formatTime (t div 60) (t mod 60) \<and> f \<le> t \<and> toMinutesSinceMidnight h m - 15 < t"
    by (intro ballI a)
  have now: "toMinutesSinceMidnight h m = h * 60 + m" by (simp add: toMinutesSinceMidnight_def)
  have nk: "(h * 60 + m) div 15 = k" unfolding k_def by (rule floor_quarter)
  have len: "length quarters = 96" unfolding quarters_def by simp
  have dr: "populateTimeOptions h m = drop (nat k) quarters"
    unfolding quarters_def k_def using assms by (intro populateTimeOptions_drop) simp_all
  have B: "\<exists>j < 96. s = quarters ! j \<and> 15 * ((h * 60 + m) div 15) \<le> 15 * int j
               \<and> h * 60 + m - 15 < 15 * int j"
    if "s \<in> set (populateTimeOptions h m)" for s
  proof -
    from that obtain i where i: "i < length (drop (nat k) quarters)" "drop (nat k) quarters ! i = s"
      unfolding dr in_set_conv_nth by blast
    define j where "j = nat k + i"
    have j: "nat k \<le> j" "j < length quarters" "s = quarters ! j"
      using i unfolding j_def by auto
    have kj: "k \<le> int j" using j(1) by simp
    have "h * 60 + m - 15 < 15 * k" using near unfolding f now .
    then have "h * 60 + m - 15 < 15 * int j" using kj by simp
    moreover have "15 * ((h * 60 + m) div 15) \<le> 15 * int j" unfolding nk using kj by simp
    moreover have "j < 96" using j(2) len by simp
    ultimately show ?thesis using j(3) by blast
  qed
  have B': "\<forall>s \<in> set (populateTimeOptions h m).
              \<exists>j < 96. s = quarters ! j \<and> 15 * ((h * 60 + m) div 15) \<le> 15 * int j
               \<and> h * 60 + m - 15 < 15 * int j"
    by (intro ballI B)
  have "nat k < length quarters" using k0 k95 len by simp
  then have C: "hd (populateTimeOptions h m) = quarters ! nat ((h * 60 + m) div 15)"
    unfolding dr nk by (simp add: hd_drop_conv_nth)
  have qd: "quarters = map (\<lambda>t. formatTime (t div 60) (t mod 60)) (map (\<lambda>j. 15 * j) [0..95])"
    unfolding quarters_def by (simp only: quarter_slot_display)
  have dist: "distinct quarters" unfolding qd by (rule display_distinct)
  note lit = quarters_def quarter_displays
  show ?thesis
    unfolding Let_def
    using A [unfolded f_def] display_distinct c [unfolded f_def] now
      B' [unfolded lit] C [unfolded lit] dist [unfolded lit] qd [unfolded lit]
    by (intro conjI)
qed

text \<open>
  Claim C7 as stated (no slot earlier than the call time, the call time rounded up) fails:
  at 10:07 the first option is "10:00 AM", the slot 10:00, seven minutes in the past.
\<close>

theorem populateTimeOptions_past_slot:
  "hd (populateTimeOptions 10 7) = ''10:00 AM''
   \<and> formatTime 10 0 = ''10:00 AM''
   \<and> toMinutesSinceMidnight 10 0 < toMinutesSinceMidnight 10 7"
proof -
  have "populateTimeOptions 10 7 = map (\<lambda>j. formatTime (j div 4) ((j mod 4) * 15)) [4 * 10 + 7 div 15..95]"
    by (rule populateTimeOptions_index) simp_all
  then have "hd (populateTimeOptions 10 7) = formatTime 10 0"
    by (simp add: upto_rec1 [of 40 95])
  moreover have "formatTime 10 0 = ''10:00 AM''" by code_simp
  moreover have "toMinutesSinceMidnight 10 0 < toMinutesSinceMidnight 10 7"
    by (simp add: toMinutesSinceMidnight_def)
  ultimately show ?thesis by simp
qed

theorem populateTimeOptions_floor_witness:
  "hd (populateTimeOptions 10 7) = formatTime 10 0"
proof -
  have "15 * (toMinutesSinceMidnight 10 7 div 15) = 600"
    by (simp add: toMinutesSinceMidnight_def)
  then show ?thesis
    using populateTimeOptions_floor [of 10 7, THEN conjunct2, THEN conjunct2, THEN conjunct1] by simp
qed

section \<open>Properties of the time zone offset and of convertToRFC3339\<close>

subsection \<open>getTimezoneOffset\<close>

lemma pad_two_digits:
  assumes "0 \<le> k" "k < 100"
  shows "padStart (number_to_string k) 2 (CHR ''0'') = [digit_char (nat k div 10), digit_char (nat k mod 10)]"
proof (cases "k < 10")
  case True
  with assms have "nat k < 10" by simp
  then show ?thesis using assms
    by (simp add: padStart_def number_to_string_def nat_digits_lt10 digit_char_0)
next
  case False
  with assms have "10 \<le> nat k" "nat k < 100" by simp_all
  then show ?thesis using assms
    by (simp add: padStart_def number_to_string_def nat_digits_lt100)
qed

lemma getTimezoneOffset_shape:
  assumes "\<bar>off\<bar> < 6000"
  shows "getTimezoneOffset off =
           (if off \<le> 0 then CHR ''+'' else CHR ''-'') #
           [digit_char (nat (\<bar>off\<bar> div 60) div 10), digit_char (nat (\<bar>off\<bar> div 60) mod 10)] @ '':'' @
           [digit_char (nat (\<bar>off\<bar> mod 60) div 10), digit_char (nat (\<bar>off\<bar> mod 60) mod 10)]"
proof -
  have h: "0 \<le> \<bar>off\<bar> div 60" "\<bar>off\<bar> div 60 < 100" using assms by simp_all
  have m: "0 \<le> \<bar>off\<bar> mod 60" "\<bar>off\<bar> mod 60 < 100"
    using pos_mod_bound [of 60 "\<bar>off\<bar>"] by simp_all
  have sm: "\<bar>off\<bar> smod 60 = \<bar>off\<bar> mod 60" by (simp add: smod_nonneg)
  show ?thesis
    unfolding getTimezoneOffset_def Let_def sm pad_two_digits [OF h] pad_two_digits [OF m]
    by simp
qed

lemma getTimezoneOffset_hd:
  "hd (getTimezoneOffset off) = (if off \<le> 0 then CHR ''+'' else CHR ''-'')"
  by (simp add: getTimezoneOffset_def Let_def)

text \<open>
  Claim C6, as amended. \<open>getTimezoneOffset\<close> returns a sign followed by the hours and the
  minutes of the magnitude of the offset, each in two digits, with a colon between them
  (for every offset below 100 hours; a runtime offset is below 24 hours). The sign is the
  usual one of an offset from UTC, not an inverted one: the source number is UTC minus
  local time, and a source number that is zero or negative (UTC or east of it) gives a
  leading \<open>+\<close>, a positive one (west of UTC) a leading \<open>-\<close>.
\<close>

theorem getTimezoneOffset_sign:
  "hd (getTimezoneOffset off) = (if off \<le> 0 then CHR ''+'' else CHR ''-'')
   \<and> (\<bar>off\<bar> < 6000 \<longrightarrow>
        getTimezoneOffset off =
           (if off \<le> 0 then CHR ''+'' else CHR ''-'') #
           [digit_char (nat (\<bar>off\<bar> div 60) div 10), digit_char (nat (\<bar>off\<bar> div 60) mod 10)] @ '':'' @
           [digit_char (nat (\<bar>off\<bar> mod 60) div 10), digit_char (nat (\<bar>off\<bar> mod 60) mod 10)])"
  using getTimezoneOffset_hd getTimezoneOffset_shape by blast

theorem getTimezoneOffset_sign_witness:
  "getTimezoneOffset 480 = ''-08:00'' \<and> hd (getTimezoneOffset 480) = CHR ''-''"
proof -
  have d: "digit_char 0 = CHR ''0''" "digit_char 8 = CHR ''8''" by (simp_all add: digit_char_def)
  show ?thesis using getTimezoneOffset_sign [of 480] d by simp
qed

text \<open>
  Claim C6 as stated (a positive source offset gives \<open>+\<close>, a non-positive one \<open>-\<close>)
  fails in both directions: 300 minutes (UTC-05:00) gives "-05:00", and -330 minutes
  (UTC+05:30) gives "+05:30".
\<close>

theorem getTimezoneOffset_not_inverted:
  "getTimezoneOffset 300 = ''-05:00'' \<and> getTimezoneOffset (- 330) = ''+05:30''"
proof -
  have "getTimezoneOffset 300 = ''-05:00''" by code_simp
  moreover have "getTimezoneOffset (- 330) = ''+05:30''" by code_simp
  ultimately show ?thesis by simp
qed

subsection \<open>The pattern, the shifted date and the ISO string\<close>

lemma digit_range: "d < 10 \<Longrightarrow> d \<in> {0, 1, 2, 3, 4, 5, 6, 7, 8, 9::nat}"
  by auto

lemma is_digit_digit_char: "d < 10 \<Longrightarrow> is_digit (digit_char d)"
  using digit_range [of d] by (auto simp: is_digit_def digit_char_def)

lemma digit_value_digit_char: "d < 10 \<Longrightarrow> digit_value (digit_char d) = int d"
  using digit_range [of d] by (auto simp: digit_char_def digit_value_def)

lemma parseInt_two_digits:
  assumes "a < 10" "b < 10"
  shows "parseInt [digit_char a, digit_char b] = Some (10 * int a + int b)"
  using assms
  by (simp add: parseInt_def is_digit_digit_char digits_value_def digit_value_digit_char)

lemma match_offset_shape:
  assumes "a < 10" "b < 10" "c < 10" "d < 10" "s = CHR ''+'' \<or> s = CHR ''-''"
  shows "match_offset (s # [digit_char a, digit_char b] @ '':'' @ [digit_char c, digit_char d])
         = Some ([s], [digit_char a, digit_char b], [digit_char c, digit_char d])"
  using assms by (auto simp: is_digit_digit_char)

lemma two_digit_value:
  assumes "0 \<le> k" "k < 100"
  shows "nat k div 10 < 10" "nat k mod 10 < 10" "10 * int (nat k div 10) + int (nat k mod 10) = k"
proof -
  show "nat k div 10 < 10" using assms by simp
  show "nat k mod 10 < 10" by simp
  have "int (nat k div 10) = k div 10" "int (nat k mod 10) = k mod 10"
    using assms by (simp_all add: zdiv_int zmod_int)
  then show "10 * int (nat k div 10) + int (nat k mod 10) = k" by simp
qed

lemma offset_minutes:
  assumes "\<bar>off\<bar> < 6000"
  shows "match_offset (getTimezoneOffset off) =
           Some ([if off \<le> 0 then CHR ''+'' else CHR ''-''],
                 [digit_char (nat (\<bar>off\<bar> div 60) div 10), digit_char (nat (\<bar>off\<bar> div 60) mod 10)],
                 [digit_char (nat (\<bar>off\<bar> mod 60) div 10), digit_char (nat (\<bar>off\<bar> mod 60) mod 10)])"
    and "parseInt [digit_char (nat (\<bar>off\<bar> div 60) div 10), digit_char (nat (\<bar>off\<bar> div 60) mod 10)] = Some (\<bar>off\<bar> div 60)"
    and "parseInt [digit_char (nat (\<bar>off\<bar> mod 60) div 10), digit_char (nat (\<bar>off\<bar> mod 60) mod 10)] = Some (\<bar>off\<bar> mod 60)"
proof -
  have h: "0 \<le> \<bar>off\<bar> div 60" "\<bar>off\<bar> div 60 < 100" using assms by simp_all
  have m: "0 \<le> \<bar>off\<bar> mod 60" "\<bar>off\<bar> mod 60 < 100"
    using pos_mod_bound [of 60 "\<bar>off\<bar>"] by simp_all
  note hv = two_digit_value [OF h] and mv = two_digit_value [OF m]
  have s: "(if off \<le> 0 then CHR ''+'' else CHR ''-'') = CHR ''+''
           \<or> (if off \<le> 0 then CHR ''+'' else CHR ''-'') = CHR ''-''" by simp
  show "match_offset (getTimezoneOffset off) =
           Some ([if off \<le> 0 then CHR ''+'' else CHR ''-''],
                 [digit_char (nat (\<bar>off\<bar> div 60) div 10), digit_char (nat (\<bar>off\<bar> div 60) mod 10)],
                 [digit_char (nat (\<bar>off\<bar> mod 60) div 10), digit_char (nat (\<bar>off\<bar> mod 60) mod 10)])"
    unfolding getTimezoneOffset_shape [OF assms]
    by (rule match_offset_shape [OF hv(1,2) mv(1,2) s])
  show "parseInt [digit_char (nat (\<bar>off\<bar> div 60) div 10), digit_char (nat (\<bar>off\<bar> div 60) mod 10)] = Some (\<bar>off\<bar> div 60)"
    by (simp only: parseInt_two_digits [OF hv(1,2)] hv(3))
  show "parseInt [digit_char (nat (\<bar>off\<bar> mod 60) div 10), digit_char (nat (\<bar>off\<bar> mod 60) mod 10)] = Some (\<bar>off\<bar> mod 60)"
    by (simp only: parseInt_two_digits [OF mv(1,2)] mv(3))
qed

lemma time_fields_linear:
  fixes l a b c q r1 r2 r3 r4 :: int
  assumes "a * 1000 + r1 = l" "b * 60 + r2 = a" "c * 60 + r3 = b" "q * 24 + r4 = c"
  shows "q * 86400000 + r4 * 3600000 + r3 * 60000 + r2 * 1000 + r1 = l"
  using assms by (simp add: algebra_simps)

lemma time_fields:
  fixes l :: int
  shows "(l div 86400000) * 86400000 + ((l div 3600000) mod 24) * 3600000
         + ((l div 60000) mod 60) * 60000 + ((l div 1000) mod 60) * 1000 + l mod 1000 = l"
proof -
  define a where "a = l div 1000"
  define b where "b = a div 60"
  define c where "c = b div 60"
  have b: "l div 60000 = b" unfolding b_def a_def by (simp add: zdiv_zmult2_eq [symmetric])
  have c: "l div 3600000 = c" unfolding c_def b_def a_def by (simp add: zdiv_zmult2_eq [symmetric])
  have d: "l div 86400000 = c div 24" unfolding c_def b_def a_def by (simp add: zdiv_zmult2_eq [symmetric])
  have e1: "a * 1000 + l mod 1000 = l" unfolding a_def by simp
  have e2: "b * 60 + a mod 60 = a" unfolding b_def by simp
  have e3: "c * 60 + b mod 60 = b" unfolding c_def by simp
  have e4: "(c div 24) * 24 + c mod 24 = c" by simp
  show ?thesis unfolding b c d a_def [symmetric]
    by (rule time_fields_linear [OF e1 e2 e3 e4])
qed

lemma shift_linear:
  fixes D H M S r l off :: int
  assumes "D + H + M * 60000 + S + r = l"
  shows "D + (H + (M + - off) * 60000 + S + r) + off * 60000 = l"
  using assms by (simp add: algebra_simps)

lemma shifted_date:
  "setMinutes rt (Some t0) (num_add (getMinutes rt (Some t0)) (Some (- tz_offset rt)))
   = TimeClip (LocalTime rt t0)"
proof -
  define l where "l = LocalTime rt t0"
  have eq: "l div 86400000 * 86400000 +
        (l div 3600000 mod 24 * 3600000 + (l div 60000 mod 60 + - tz_offset rt) * 60000
          + l div 1000 mod 60 * 1000 + l mod 1000) + tz_offset rt * 60000 = l"
    by (rule shift_linear) (rule time_fields)
  show ?thesis
    unfolding setMinutes_def getMinutes_def num_add_def Let_def UTC_time_def msPerDay_def
        msPerHour_def msPerMinute_def
    by (simp only: option.map prod.case option.case eq [unfolded l_def])
qed


lemma nat_digits_chars: "c \<in> set (nat_digits n) \<Longrightarrow> is_digit c"
proof (induction n rule: nat_digits.induct)
  case (1 n)
  show ?case
  proof (cases "n < 10")
    case True
    then show ?thesis using "1.prems" is_digit_digit_char [of n]
      by (simp add: nat_digits_lt10)
  next
    case False
    have "n mod 10 < 10" by simp
    then have "is_digit (digit_char (n mod 10))" by (rule is_digit_digit_char)
    moreover have "nat_digits n = nat_digits (n div 10) @ [digit_char (n mod 10)]"
      using False by (subst nat_digits.simps) simp
    ultimately show ?thesis using False "1.IH" "1.prems" by auto
  qed
qed

lemma pad_number_chars:
  assumes "c \<in> set (pad_number n k)"
  shows "is_digit c \<or> c = CHR ''-''"
proof -
  have z: "is_digit (CHR ''0'')" by (simp add: is_digit_def)
  have "c \<in> set (number_to_string k) \<or> c = CHR ''0''"
    using assms by (auto simp: pad_number_def padStart_def)
  moreover have "is_digit c \<or> c = CHR ''-''" if "c \<in> set (number_to_string k)"
    using that nat_digits_chars [of c "nat k"] nat_digits_chars [of c "nat (- k)"]
    by (auto simp: number_to_string_def split: if_splits)
  ultimately show ?thesis using z by auto
qed

lemma pad_number_no_sep:
  "CHR ''T'' \<notin> set (pad_number n k)" "CHR ''.'' \<notin> set (pad_number n k)"
proof -
  have "\<not> is_digit (CHR ''T'')" "\<not> is_digit (CHR ''.'')" by (simp_all add: is_digit_def)
  then show "CHR ''T'' \<notin> set (pad_number n k)" "CHR ''.'' \<notin> set (pad_number n k)"
    using pad_number_chars [of "CHR ''T''" n k] pad_number_chars [of "CHR ''.''" n k] by auto
qed

lemma split_on_nonempty: "split_on sep s \<noteq> []"
  by (induction s) (auto split: list.splits)

lemma split_on_notin: "sep \<notin> set a \<Longrightarrow> split_on sep a = [a]"
  by (induction a) auto

lemma split_on_append:
  "sep \<notin> set a \<Longrightarrow> split_on sep (a @ sep # b) = a # split_on sep b"
  by (induction a) (auto split: list.splits)

lemma toISOString_split:
  assumes "toISOString (Some l) = Inr istr"
  shows "\<exists>isoDate hms rest. istr = isoDate @ ''T'' @ hms @ ''.'' @ rest
           \<and> CHR ''T'' \<notin> set isoDate \<and> CHR ''T'' \<notin> set (hms @ ''.'' @ rest) \<and> CHR ''.'' \<notin> set hms"
proof -
  obtain y m dd where c: "civil_from_days (l div msPerDay) = (y, m, dd)"
    by (cases "civil_from_days (l div msPerDay)") auto
  define year where "year = (if 0 \<le> y \<and> y \<le> 9999 then pad_number 4 y
                       else (if y < 0 then ''-'' else ''+'') @ pad_number 6 \<bar>y\<bar>)"
  define isoDate where "isoDate = year @ ''-'' @ pad_number 2 m @ ''-'' @ pad_number 2 dd"
  define tod where "tod = l mod msPerDay"
  define hms where "hms = pad_number 2 (tod div msPerHour) @ '':'' @
                   pad_number 2 ((tod div msPerMinute) mod 60) @ '':'' @
                   pad_number 2 ((tod div 1000) mod 60)"
  define rest where "rest = pad_number 3 (tod mod 1000) @ ''Z''"
  have istr: "istr = isoDate @ ''T'' @ hms @ ''.'' @ rest"
    using assms c
    by (simp add: toISOString_def Let_def isoDate_def year_def hms_def rest_def tod_def)
  have "CHR ''T'' \<notin> set year" unfolding year_def using pad_number_no_sep by auto
  then have d: "CHR ''T'' \<notin> set isoDate" unfolding isoDate_def using pad_number_no_sep by auto
  have h: "CHR ''.'' \<notin> set hms" "CHR ''T'' \<notin> set hms" unfolding hms_def using pad_number_no_sep by auto
  have r: "CHR ''T'' \<notin> set rest" unfolding rest_def using pad_number_no_sep by auto
  from istr d h r show ?thesis by auto
qed

lemma toISOString_valid: "\<exists>istr. toISOString (Some l) = Inr istr"
  by (simp add: toISOString_def Let_def split: prod.splits)

lemma conv_offset:
  assumes "\<bar>tz_offset rt\<bar> < 6000"
  shows "convertToRFC3339 rt d t =
     (case toISOString (case date_parse rt (d @ '' '' @ t) of None \<Rightarrow> None
                          | Some t0 \<Rightarrow> TimeClip (LocalTime rt t0)) of
        Inl e \<Rightarrow> Inl e
      | Inr isoString \<Rightarrow>
          (case split_on (CHR ''T'') isoString of
             isoDate # isoTime # _ \<Rightarrow>
               Inr (isoDate @ ''T'' @ hd (split_on (CHR ''.'') isoTime) @ getTimezoneOffset (tz_offset rt))
           | _ \<Rightarrow> Inl TypeError))"
proof -
  let ?off = "tz_offset rt"
  note om = offset_minutes [OF assms]
  have "\<bar>?off\<bar> div 60 * 60 + \<bar>?off\<bar> mod 60 = \<bar>?off\<bar>" by simp
  then have mins: "num_mul (num_add (num_mul (Some (\<bar>?off\<bar> div 60)) (Some 60)) (Some (\<bar>?off\<bar> mod 60)))
                (Some (if [if ?off \<le> 0 then CHR ''+'' else CHR ''-''] = ''+'' then 1 else - 1))
        = Some (- ?off)"
    by (simp add: num_mul_def num_add_def)
  have date: "setMinutes rt (date_parse rt (d @ '' '' @ t))
                 (num_add (getMinutes rt (date_parse rt (d @ '' '' @ t))) (Some (- ?off)))
              = (case date_parse rt (d @ '' '' @ t) of None \<Rightarrow> None
                          | Some t0 \<Rightarrow> TimeClip (LocalTime rt t0))"
  proof (cases "date_parse rt (d @ '' '' @ t)")
    case None
    then show ?thesis by (simp add: setMinutes_def)
  next
    case (Some t0)
    then show ?thesis by (simp only: shifted_date option.case)
  qed
  show ?thesis
    unfolding convertToRFC3339_def Let_def om option.case prod.case mins date ..
qed


lemma conv_result:
  assumes "\<bar>tz_offset rt\<bar> < 6000"
  shows "date_parse rt (d @ '' '' @ t) = None \<Longrightarrow> convertToRFC3339 rt d t = Inl RangeError"
    and "date_parse rt (d @ '' '' @ t) = Some t0 \<Longrightarrow> TimeClip (LocalTime rt t0) = None
         \<Longrightarrow> convertToRFC3339 rt d t = Inl RangeError"
    and "date_parse rt (d @ '' '' @ t) = Some t0 \<Longrightarrow> TimeClip (LocalTime rt t0) = Some l
         \<Longrightarrow> \<exists>isoDate hms. convertToRFC3339 rt d t =
                Inr (isoDate @ ''T'' @ hms @ getTimezoneOffset (tz_offset rt))"
proof -
  show "date_parse rt (d @ '' '' @ t) = None \<Longrightarrow> convertToRFC3339 rt d t = Inl RangeError"
    by (simp add: conv_offset [OF assms] toISOString_def)
  show "date_parse rt (d @ '' '' @ t) = Some t0 \<Longrightarrow> TimeClip (LocalTime rt t0) = None
         \<Longrightarrow> convertToRFC3339 rt d t = Inl RangeError"
    by (simp add: conv_offset [OF assms] toISOString_def)
  assume p: "date_parse rt (d @ '' '' @ t) = Some t0" and c: "TimeClip (LocalTime rt t0) = Some l"
  obtain istr where i: "toISOString (Some l) = Inr istr"
    using toISOString_valid by blast
  from toISOString_split [OF i] obtain isoDate hms rest where
    s: "istr = isoDate @ ''T'' @ hms @ ''.'' @ rest" and
    n: "CHR ''T'' \<notin> set isoDate" "CHR ''T'' \<notin> set (hms @ ''.'' @ rest)" "CHR ''.'' \<notin> set hms"
    by blast
  have "split_on (CHR ''T'') istr = [isoDate, hms @ ''.'' @ rest]"
    unfolding s using n(1,2) by (simp add: split_on_append split_on_notin del: set_append)
  moreover have "hd (split_on (CHR ''.'') (hms @ ''.'' @ rest)) = hms"
    using n(3) by (simp add: split_on_append)
  ultimately have "convertToRFC3339 rt d t = Inr (isoDate @ ''T'' @ hms @ getTimezoneOffset (tz_offset rt))"
    using p c i by (simp add: conv_offset [OF assms])
  then show "\<exists>isoDate hms. convertToRFC3339 rt d t =
                Inr (isoDate @ ''T'' @ hms @ getTimezoneOffset (tz_offset rt))"
    by blast
qed

lemma conv_cong:
  assumes "tz_offset rt = tz_offset rt'"
      and "date_parse rt (d @ '' '' @ t) = date_parse rt' (d @ '' '' @ t)"
  shows "convertToRFC3339 rt d t = convertToRFC3339 rt' d t"
  by (simp only: convertToRFC3339_def getMinutes_def setMinutes_def LocalTime_def UTC_time_def
      Let_def assms)

subsection \<open>convertToRFC3339\<close>

text \<open>
  Claim C10, as amended. For every offset of the runtime (below 100 hours in magnitude;
  a runtime offset is below 24 hours) the pattern matches the string of
  \<open>getTimezoneOffset\<close>, so the non-null assertion in \<open>convertToRFC3339\<close> never fails
  and no \<open>TypeError\<close> is raised. The function is not total over its string inputs: it
  raises a \<open>RangeError\<close> (from \<open>toISOString\<close>) in exactly two cases. The first: the
  date and the time string, joined by a space, do not parse to a valid date. The second:
  they parse to a valid date \<open>t0\<close>, but the time that \<open>setMinutes\<close> shifts it to,
  \<open>t0\<close> minus the offset of the runtime, is out of the range of a \<open>Date\<close> (more than
  8.64e15 milliseconds from the epoch). In every other case the function returns a string
  that ends in the offset string.
\<close>

theorem convertToRFC3339_failure:
  assumes "\<bar>tz_offset rt\<bar> < 6000"
  shows "(\<exists>sign hh mm. match_offset (getTimezoneOffset (tz_offset rt)) = Some (sign, hh, mm))
       \<and> convertToRFC3339 rt d t \<noteq> Inl TypeError
       \<and> (convertToRFC3339 rt d t = Inl RangeError \<longleftrightarrow>
            (case date_parse rt (d @ '' '' @ t) of
               None \<Rightarrow> True
             | Some t0 \<Rightarrow> TimeClip (LocalTime rt t0) = None))
       \<and> ((\<exists>r. convertToRFC3339 rt d t = Inr r \<and> suffix (getTimezoneOffset (tz_offset rt)) r) \<longleftrightarrow>
            (case date_parse rt (d @ '' '' @ t) of
               None \<Rightarrow> False
             | Some t0 \<Rightarrow> TimeClip (LocalTime rt t0) \<noteq> None))"
proof -
  have a: "\<exists>sign hh mm. match_offset (getTimezoneOffset (tz_offset rt)) = Some (sign, hh, mm)"
    using offset_minutes(1) [OF assms] by blast
  note r = conv_result [OF assms, of d t]
  show ?thesis
  proof (cases "date_parse rt (d @ '' '' @ t)")
    case None
    then show ?thesis using a r(1) by simp
  next
    case (Some t0)
    show ?thesis
    proof (cases "TimeClip (LocalTime rt t0)")
      case None
      then show ?thesis using a r(2) [OF Some] Some by simp
    next
      case (Some l)
      from r(3) [OF \<open>date_parse rt (d @ '' '' @ t) = Some t0\<close> Some]
      obtain isoDate hms where
        "convertToRFC3339 rt d t = Inr (isoDate @ ''T'' @ hms @ getTimezoneOffset (tz_offset rt))"
        by blast
      moreover have "suffix (getTimezoneOffset (tz_offset rt))
                       (isoDate @ ''T'' @ hms @ getTimezoneOffset (tz_offset rt))"
        by (simp add: suffix_def)
      ultimately show ?thesis
        using a Some \<open>date_parse rt (d @ '' '' @ t) = Some t0\<close> by simp
    qed
  qed
qed

text \<open>
  The theorem in the zone UTC+05:30, once for each case: "someday soon" does not
  parse; "275760-09-13 5:00 AM" parses to the valid time 8639999998200000, five and a
  half hours before the end of the range of a \<open>Date\<close>, and shifted by 330 minutes it is
  out of the range.
\<close>

theorem convertToRFC3339_failure_witness:
  "convertToRFC3339 runtime_ist ''someday'' ''soon'' = Inl RangeError
   \<and> convertToRFC3339 runtime_ist ''someday'' ''soon'' \<noteq> Inl TypeError
   \<and> date_parse runtime_ist ''275760-09-13 5:00 AM'' = Some 8639999998200000
   \<and> TimeClip 8639999998200000 = Some 8639999998200000
   \<and> convertToRFC3339 runtime_ist ''275760-09-13'' ''5:00 AM'' = Inl RangeError"
proof -
  have b: "\<bar>tz_offset runtime_ist\<bar> < 6000" by (simp add: runtime_ist_def)
  have p: "date_parse runtime_ist (''someday'' @ '' '' @ ''soon'') = None" by code_simp
  have q: "date_parse runtime_ist (''275760-09-13'' @ '' '' @ ''5:00 AM'') = Some 8639999998200000"
    by code_simp
  have c: "TimeClip (LocalTime runtime_ist 8639999998200000) = None" by code_simp
  have v: "TimeClip 8639999998200000 = Some 8639999998200000" by code_simp
  have "convertToRFC3339 runtime_ist ''someday'' ''soon'' = Inl RangeError
        \<and> convertToRFC3339 runtime_ist ''someday'' ''soon'' \<noteq> Inl TypeError"
    using convertToRFC3339_failure [OF b, of "''someday''" "''soon''"] p by simp
  moreover have "convertToRFC3339 runtime_ist ''275760-09-13'' ''5:00 AM'' = Inl RangeError"
    using convertToRFC3339_failure [OF b, of "''275760-09-13''" "''5:00 AM''"] q c by simp
  ultimately show ?thesis using q v by simp
qed

text \<open>
  Claim C10 as stated (the function can fail only on the offset pattern, hence is total)
  fails: in the zone UTC+05:30 the pattern matches, and the call with the strings
  "someday" and "soon" raises, since \<open>toISOString\<close> of an invalid date raises.
\<close>

theorem convertToRFC3339_invalid_date:
  "match_offset (getTimezoneOffset (tz_offset runtime_ist)) = Some (''+'', ''05'', ''30'')
   \<and> convertToRFC3339 runtime_ist ''someday'' ''soon'' = Inl RangeError"
proof -
  have "match_offset (getTimezoneOffset (tz_offset runtime_ist)) = Some (''+'', ''05'', ''30'')"
    by code_simp
  moreover have "convertToRFC3339 runtime_ist ''someday'' ''soon'' = Inl RangeError"
    by code_simp
  ultimately show ?thesis by simp
qed

text \<open>
  Claim C5, as amended. In a runtime whose zone offset is -330 minutes (the offset string
  is "+05:30") and whose engine reads "2024-01-15 2:00 PM" as local wall-clock time,
  \<open>convertToRFC3339 "2024-01-15" "2:00 PM"\<close> returns "2024-01-15T14:00:00+05:30": the
  local wall-clock time followed by the offset string.
\<close>

theorem convertToRFC3339_ist:
  assumes "tz_offset rt = - 330"
      and "date_parse rt ''2024-01-15 2:00 PM'' = local_date_parse (tz_offset rt) ''2024-01-15 2:00 PM''"
  shows "getTimezoneOffset (tz_offset rt) = ''+05:30''
       \<and> convertToRFC3339 rt ''2024-01-15'' ''2:00 PM'' = Inr ''2024-01-15T14:00:00+05:30''"
proof -
  have a: "getTimezoneOffset (- 330) = ''+05:30''" by code_simp
  have tz: "tz_offset rt = tz_offset runtime_ist" using assms(1) by (simp add: runtime_ist_def)
  have "date_parse rt (''2024-01-15'' @ '' '' @ ''2:00 PM'')
        = date_parse runtime_ist (''2024-01-15'' @ '' '' @ ''2:00 PM'')"
    using assms by (simp add: runtime_ist_def)
  then have "convertToRFC3339 rt ''2024-01-15'' ''2:00 PM''
             = convertToRFC3339 runtime_ist ''2024-01-15'' ''2:00 PM''"
    by (rule conv_cong [OF tz])
  also have "\<dots> = Inr ''2024-01-15T14:00:00+05:30''" by code_simp
  finally show ?thesis using a assms(1) by simp
qed

theorem convertToRFC3339_ist_witness:
  "convertToRFC3339 runtime_ist ''2024-01-15'' ''2:00 PM'' = Inr ''2024-01-15T14:00:00+05:30''"
proof -
  have "tz_offset runtime_ist = - 330" by (simp add: runtime_ist_def)
  moreover have "date_parse runtime_ist ''2024-01-15 2:00 PM''
                 = local_date_parse (tz_offset runtime_ist) ''2024-01-15 2:00 PM''"
    by (simp add: runtime_ist_def)
  ultimately show ?thesis using convertToRFC3339_ist [of runtime_ist] by simp
qed

text \<open>
  Claim C5 as stated fails: in that runtime the result does not end in
  "T08:30:00+05:30".
\<close>

theorem convertToRFC3339_ist_not_0830:
  "getTimezoneOffset (tz_offset runtime_ist) = ''+05:30''
   \<and> convertToRFC3339 runtime_ist ''2024-01-15'' ''2:00 PM'' = Inr ''2024-01-15T14:00:00+05:30''
   \<and> \<not> suffix ''T08:30:00+05:30'' ''2024-01-15T14:00:00+05:30''"
proof -
  have "getTimezoneOffset (tz_offset runtime_ist) = ''+05:30''" by code_simp
  moreover have "convertToRFC3339 runtime_ist ''2024-01-15'' ''2:00 PM'' = Inr ''2024-01-15T14:00:00+05:30''"
    by code_simp
  moreover have "\<not> suffix ''T08:30:00+05:30'' ''2024-01-15T14:00:00+05:30''"
    by (simp add: suffix_def)
  ultimately show ?thesis by simp
qed

section \<open>Properties of the API client\<close>


subsection \<open>The token refresh\<close>

lemma adapter_config:
  "adapter net cfg w = (Inl error, w1) \<Longrightarrow> config error = cfg"
  by (auto simp: adapter_def Let_def split: if_splits net_answer.splits)

lemma refreshToken_events:
  "refreshToken net w1 = (tok, w2) \<Longrightarrow>
     events w2 = events w1 @ [Sent (plain_request GET ''/auth/token/refresh'' NoBody)]
     \<and> net_calls w2 = net_calls w1 + 1"
  by (auto simp: refreshToken_def Let_def emit_def split: net_answer.splits)

lemma adapter_401_events:
  "adapter net cfg w = (Inl error, w1) \<Longrightarrow> is_401 error \<Longrightarrow>
     events w1 = events w @ [Sent cfg] \<and> net_calls w1 = net_calls w + 1 \<and> \<not> signal_aborted cfg w"
  by (auto simp: adapter_def Let_def emit_def is_401_def split: if_splits net_answer.splits)

lemma client_replay:
  "retry cfg \<Longrightarrow> client (Suc n) a net cfg w =
     (case adapter net cfg w of
        (Inr res, w3) \<Rightarrow> Some (Inr res, w3)
      | (Inl e, w3) \<Rightarrow> Some (Inl e, w3))"
  by (auto simp: Let_def dest: adapter_config split: prod.splits sum.splits)

lemma client_events:
  "client n a net cfg w = Some (r, w') \<Longrightarrow>
     \<exists>es. events w' = events w @ es \<and> length (filter is_replay es) \<le> 1"
proof (induction n arbitrary: cfg w r w')
  case 0
  then show ?case by simp
next
  case (Suc n)
  obtain x w1 where ad: "adapter net cfg w = (x, w1)" by (cases "adapter net cfg w")
  show ?case
  proof (cases "signal_aborted cfg w")
    case True
    then have "client (Suc n) a net cfg w =
        Some (Inl \<lparr>code = Some ''ERR_CANCELED'', response = None, config = cfg\<rparr>, w)"
      by (simp add: adapter_def is_401_def)
    with Suc.prems have "w' = w" by simp
    then show ?thesis by simp
  next
    case False
    then have w1: "events w1 = events w @ [Sent cfg]"
      using ad by (auto simp: adapter_def Let_def emit_def split: net_answer.splits)
    show ?thesis
    proof (cases x)
      case (Inr res)
      then have "w' = w1" using Suc.prems ad by simp
      then show ?thesis using w1 by simp
    next
      case (Inl error)
      have c: "config error = cfg" using ad Inl by (auto dest: adapter_config)
      show ?thesis
      proof (cases "is_401 error \<and> \<not> retry cfg")
        case False
        then have "w' = w1" using Suc.prems ad Inl c by (auto simp: Let_def)
        then show ?thesis using w1 by simp
      next
        case True
        obtain tok w2 where rf: "refreshToken net w1 = (tok, w2)" by (cases "refreshToken net w1")
        have w2: "events w2 = events w @ [Sent cfg, Sent (plain_request GET ''/auth/token/refresh'' NoBody)]"
          using refreshToken_events [OF rf] w1 by simp
        have nr: "\<not> is_replay (Sent cfg)"
                 "\<not> is_replay (Sent (plain_request GET ''/auth/token/refresh'' NoBody))"
          using True by (simp_all add: plain_request_def)
        show ?thesis
        proof (cases "truthy tok")
          case t: True
          then have "client n a net (cfg\<lparr>retry := True\<rparr>) w2 = Some (r, w')"
            using Suc.prems ad Inl c True rf by (simp add: Let_def del: logout.simps)
          from Suc.IH [OF this] obtain es where
            "events w' = events w2 @ es" "length (filter is_replay es) \<le> 1" by blast
          then have "events w' = events w @ ([Sent cfg, Sent (plain_request GET ''/auth/token/refresh'' NoBody)] @ es)
                     \<and> length (filter is_replay ([Sent cfg, Sent (plain_request GET ''/auth/token/refresh'' NoBody)] @ es)) \<le> 1"
            using w2 nr by simp
          then show ?thesis by blast
        next
          case f: False
          then obtain rl w3 where
            lo: "client n a net (plain_request POST ''/auth/logout'' NoBody) w2 = Some (rl, w3)"
            and w': "w' = (case navigate a of Some g \<Rightarrow> emit (Navigate (signIn a)) w3 | None \<Rightarrow> w3)"
            using Suc.prems ad Inl c True rf
            by (auto simp: Let_def split: option.splits sum.splits)
          from Suc.IH [OF lo] obtain es where
            es: "events w3 = events w2 @ es" "length (filter is_replay es) \<le> 1" by blast
          obtain tl where tl: "events w' = events w3 @ tl" "filter is_replay tl = []"
            using w' by (cases "navigate a") (auto simp: emit_def)
          have "events w' = events w @ ([Sent cfg, Sent (plain_request GET ''/auth/token/refresh'' NoBody)] @ es @ tl)
                \<and> length (filter is_replay ([Sent cfg, Sent (plain_request GET ''/auth/token/refresh'' NoBody)] @ es @ tl)) \<le> 1"
            using w2 nr es tl by simp
          then show ?thesis by blast
        qed
      qed
    qed
  qed
qed

text \<open>
  Claim C2, as amended. Let a request that has not been retried be answered with 401.
  Then exactly one token refresh is attempted for it. If the refresh gives a token, the
  request is sent again once, with the flag set, and the call settles as that replay
  settles, whatever its answer (a second 401 is not retried). If the refresh gives no
  token, the client calls \<open>logout\<close> and, once \<open>logout\<close> has returned, rejects with the
  original 401 error; it navigates to the sign-in route when the client was built with
  the function of the router, and does not navigate when it was built without one. When
  the request of \<open>logout\<close> is not itself answered with 401, \<open>logout\<close> returns after
  that one request. In every call that returns, at most one request is sent with the
  retry flag: no request is retried more than once.
\<close>

theorem token_refresh_once:
  assumes "adapter net cfg w = (Inl error, w1)" and "is_401 error" and "\<not> retry cfg"
      and "refreshToken net w1 = (renewedToken, w2)"
  shows "events w2 = events w @ [Sent cfg, Sent (plain_request GET ''/auth/token/refresh'' NoBody)]
       \<and> (truthy renewedToken \<longrightarrow>
            client (Suc (Suc n)) a net cfg w =
              (case adapter net (cfg\<lparr>retry := True\<rparr>) w2 of
                 (Inr res, w3) \<Rightarrow> Some (Inr res, w3)
               | (Inl e, w3) \<Rightarrow> Some (Inl e, w3)))
       \<and> (\<not> truthy renewedToken \<longrightarrow>
            client (Suc n) a net cfg w =
              (case logout n a net w2 of
                 None \<Rightarrow> None
               | Some (done, w3) \<Rightarrow>
                   Some (Inl (error\<lparr>config := cfg\<lparr>retry := True\<rparr>\<rparr>),
                         (case navigate a of
                            Some f \<Rightarrow> emit (Navigate (signIn a)) w3
                          | None \<Rightarrow> w3))))
       \<and> (\<not> truthy renewedToken \<longrightarrow>
            (\<forall>x w3. adapter net (plain_request POST ''/auth/logout'' NoBody) w2 = (x, w3)
                      \<and> (case x of Inl e \<Rightarrow> \<not> is_401 e | Inr res \<Rightarrow> True) \<longrightarrow>
              client (Suc (Suc n)) a net cfg w =
                Some (Inl (error\<lparr>config := cfg\<lparr>retry := True\<rparr>\<rparr>),
                      (case navigate a of
                         Some f \<Rightarrow> emit (Navigate (signIn a)) w3
                       | None \<Rightarrow> w3))))
       \<and> (\<forall>m r w'. client m a net cfg w = Some (r, w') \<longrightarrow>
             (\<exists>es. events w' = events w @ es \<and> length (filter is_replay es) \<le> 1))"
proof -
  let ?err = "error\<lparr>config := cfg\<lparr>retry := True\<rparr>\<rparr>"
  let ?nav = "\<lambda>w3. (case navigate a of Some f \<Rightarrow> emit (Navigate (signIn a)) w3 | None \<Rightarrow> w3)"
  have c: "config error = cfg" using assms(1) by (rule adapter_config)
  have e: "events w2 = events w @ [Sent cfg, Sent (plain_request GET ''/auth/token/refresh'' NoBody)]"
    using adapter_401_events [OF assms(1,2)] refreshToken_events [OF assms(4)] by simp
  have step: "client (Suc m) a net cfg w =
      (if \<not> truthy renewedToken
       then (case logout m a net w2 of
               None \<Rightarrow> None
             | Some (done, w3) \<Rightarrow> Some (Inl ?err, ?nav w3))
       else client m a net (cfg\<lparr>retry := True\<rparr>) w2)" for m
    using assms c by (simp add: Let_def del: logout.simps)
  have replay: "client (Suc n) a net (cfg\<lparr>retry := True\<rparr>) w2 =
              (case adapter net (cfg\<lparr>retry := True\<rparr>) w2 of
                 (Inr res, w3) \<Rightarrow> Some (Inr res, w3)
               | (Inl e, w3) \<Rightarrow> Some (Inl e, w3))"
    by (rule client_replay) simp
  have lo: "client (Suc (Suc n)) a net cfg w = Some (Inl ?err, ?nav w3)"
    if "\<not> truthy renewedToken"
       "adapter net (plain_request POST ''/auth/logout'' NoBody) w2 = (x, w3)"
       "case x of Inl e \<Rightarrow> \<not> is_401 e | Inr res \<Rightarrow> True" for x w3
  proof -
    have "\<exists>b. logout (Suc n) a net w2 = Some (b, w3)"
      using that(2,3) by (cases x) (auto simp: Let_def)
    then show ?thesis using step [of "Suc n"] that(1) by (auto simp del: logout.simps client.simps)
  qed
  have inv: "\<exists>es. events w' = events w @ es \<and> length (filter is_replay es) \<le> 1"
    if "client m a net cfg w = Some (r, w')" for m r w'
    using that by (rule client_events)
  show ?thesis
    using e step [of "Suc n"] step [of n] replay lo inv
    by (simp del: logout.simps client.simps)
qed

theorem token_refresh_once_witness:
  "client (Suc (Suc 0)) api_with_router net_refresh_fails floors_request world0 =
     Some (Inl \<lparr>code = Some ''ERR_BAD_REQUEST'',
                response = Some \<lparr>err_status = 401,
                    err_body = JsonBody \<lparr>status = StatusError, message = Some ''Unauthorized'', data = NoData\<rparr>\<rparr>,
                config = floors_request\<lparr>retry := True\<rparr>\<rparr>,
           \<lparr>net_calls = 3, controllers = 0, aborted = [],
            events = [Sent floors_request,
                      Sent (plain_request GET ''/auth/token/refresh'' NoBody),
                      Sent (plain_request POST ''/auth/logout'' NoBody),
                      Navigate ''/sign-in'']\<rparr>)"
proof -
  let ?error = "\<lparr>code = Some ''ERR_BAD_REQUEST'',
                response = Some \<lparr>err_status = 401,
                    err_body = JsonBody \<lparr>status = StatusError, message = Some ''Unauthorized'', data = NoData\<rparr>\<rparr>,
                config = floors_request\<rparr>"
  let ?w1 = "\<lparr>net_calls = 1, controllers = 0, aborted = [], events = [Sent floors_request]\<rparr>"
  let ?w2 = "\<lparr>net_calls = 2, controllers = 0, aborted = [],
              events = [Sent floors_request, Sent (plain_request GET ''/auth/token/refresh'' NoBody)]\<rparr>"
  let ?w3 = "\<lparr>net_calls = 3, controllers = 0, aborted = [],
              events = [Sent floors_request, Sent (plain_request GET ''/auth/token/refresh'' NoBody),
                        Sent (plain_request POST ''/auth/logout'' NoBody)]\<rparr>"
  have a: "adapter net_refresh_fails floors_request world0 = (Inl ?error, ?w1)"
    by (simp add: adapter_def signal_aborted_def floors_request_def plain_request_def world0_def
        net_refresh_fails_def script_def unauthorized_def emit_def)
  have b: "is_401 ?error" by (simp add: is_401_def)
  have c: "\<not> retry floors_request" by (simp add: floors_request_def plain_request_def)
  have d: "refreshToken net_refresh_fails ?w1 = (NoData, ?w2)"
    by (simp add: refreshToken_def net_refresh_fails_def script_def unauthorized_def emit_def)
  have l: "adapter net_refresh_fails (plain_request POST ''/auth/logout'' NoBody) ?w2
           = (Inr \<lparr>http_status = 200, body = JsonBody \<lparr>status = StatusSuccess, message = None, data = NoData\<rparr>\<rparr>, ?w3)"
    by (simp add: adapter_def signal_aborted_def plain_request_def
        net_refresh_fails_def script_def ok_answer_def emit_def)
  show ?thesis
    using token_refresh_once [OF a b c d, of 0 api_with_router] l
    by (simp add: api_with_router_def emit_def del: client.simps logout.simps)
qed

text \<open>
  Claim C2 as stated (a failed refresh always navigates to the sign-in route) fails for a
  client built without the function of the router, which the constructor allows: the
  interceptor guards the call with \<open>this.navigate &&\<close>, and no navigation happens.
\<close>

theorem refresh_failure_without_router:
  "client (Suc (Suc 0)) api_without_router net_refresh_fails floors_request world0 =
     Some (Inl \<lparr>code = Some ''ERR_BAD_REQUEST'',
                response = Some \<lparr>err_status = 401,
                    err_body = JsonBody \<lparr>status = StatusError, message = Some ''Unauthorized'', data = NoData\<rparr>\<rparr>,
                config = floors_request\<lparr>retry := True\<rparr>\<rparr>,
           \<lparr>net_calls = 3, controllers = 0, aborted = [],
            events = [Sent floors_request,
                      Sent (plain_request GET ''/auth/token/refresh'' NoBody),
                      Sent (plain_request POST ''/auth/logout'' NoBody)]\<rparr>)
   \<and> Navigate ''/sign-in'' \<notin> set [Sent floors_request,
                      Sent (plain_request GET ''/auth/token/refresh'' NoBody),
                      Sent (plain_request POST ''/auth/logout'' NoBody)]
   \<and> signIn api_without_router = ''/sign-in''"
  by (simp add: adapter_def signal_aborted_def floors_request_def plain_request_def world0_def
        net_refresh_fails_def script_def unauthorized_def emit_def is_401_def refreshToken_def
        ok_answer_def api_without_router_def Let_def)

text \<open>
  \<open>logout\<close> goes through the client, so its own 401 starts another refresh and another
  \<open>logout\<close>: against a back end that answers every request with 401 the call never
  returns, whatever the fuel.
\<close>

lemma logout_loop:
  "\<not> retry cfg \<Longrightarrow> \<not> signal_aborted cfg w \<Longrightarrow> client n a (\<lambda>k. unauthorized) cfg w = None"
proof (induction n arbitrary: cfg w)
  case 0
  then show ?case by simp
next
  case (Suc n)
  let ?w2 = "emit (Sent (plain_request GET ''/auth/token/refresh'' NoBody))
               ((emit (Sent cfg) (w\<lparr>net_calls := net_calls w + 1\<rparr>))
                  \<lparr>net_calls := net_calls w + 1 + 1\<rparr>)"
  have "client n a (\<lambda>k. unauthorized) (plain_request POST ''/auth/logout'' NoBody) ?w2 = None"
    by (rule Suc.IH) (simp_all add: plain_request_def signal_aborted_def)
  then show ?case
    using Suc.prems
    by (simp add: adapter_def unauthorized_def is_401_def refreshToken_def Let_def emit_def)
qed

subsection \<open>The error policy of the public operations\<close>

lemma api_request_eq:
  "api_request n a net cfg w =
     (case client n a net cfg w of
        None \<Rightarrow> None
      | Some (Inr res, w') \<Rightarrow> Some (Resolved (body res), w')
      | Some (Inl e, w') \<Rightarrow> Some (Resolved (handleError (AxiosError e)), w'))"
  by (simp add: api_request_def await_client_def try_catch_def split: option.splits sum.splits prod.splits)

lemma handleError_axios:
  "handleError (AxiosError e) =
     (if code e = Some ''ERR_CANCELED''
      then JsonBody \<lparr>status = StatusIgnore, message = Some ''Pending request aborted'', data = NoData\<rparr>
      else (case response e of
              None \<Rightarrow> JsonBody \<lparr>status = StatusError, message = Some ''Something went wrong'', data = NoData\<rparr>
            | Some r \<Rightarrow>
                if body_truthy (err_body r) then err_body r
                else JsonBody \<lparr>status = StatusError, message = Some ''Something went wrong'', data = NoData\<rparr>))"
  by (simp add: handleError_def thrown_code_def thrown_response_data_def createReply_def Let_def
      split: option.splits)

lemma api_request_never_rejected: "api_request n a net cfg w \<noteq> Some (Rejected e, w')"
  by (simp add: api_request_eq split: option.splits sum.splits prod.splits)

lemma client_aborted:
  "signal_aborted cfg w \<Longrightarrow>
     client (Suc n) a net cfg w =
       Some (Inl \<lparr>code = Some ''ERR_CANCELED'', response = None, config = cfg\<rparr>, w)"
  by (simp add: adapter_def is_401_def)

lemma client_answer:
  "adapter net cfg w = (Inr res, w1) \<Longrightarrow> client (Suc n) a net cfg w = Some (Inr res, w1)"
  by simp

lemma client_failure:
  "adapter net cfg w = (Inl e, w1) \<Longrightarrow> \<not> is_401 e \<Longrightarrow>
     client (Suc n) a net cfg w = Some (Inl e, w1)"
  by (simp add: Let_def)

lemma client_refreshed:
  assumes "adapter net cfg w = (Inl e, w1)" "is_401 e" "\<not> retry cfg"
      and "refreshToken net w1 = (tok, w2)" "truthy tok"
  shows "client (Suc (Suc n)) a net cfg w =
           (case adapter net (cfg\<lparr>retry := True\<rparr>) w2 of
              (Inr res, w3) \<Rightarrow> Some (Inr res, w3)
            | (Inl e', w3) \<Rightarrow> Some (Inl e', w3))"
proof -
  have c: "config e = cfg" using assms(1) by (rule adapter_config)
  have "client (Suc (Suc n)) a net cfg w = client (Suc n) a net (cfg\<lparr>retry := True\<rparr>) w2"
    using assms c by (simp add: Let_def del: logout.simps)
  moreover have "client (Suc n) a net (cfg\<lparr>retry := True\<rparr>) w2 =
           (case adapter net (cfg\<lparr>retry := True\<rparr>) w2 of
              (Inr res, w3) \<Rightarrow> Some (Inr res, w3)
            | (Inl e', w3) \<Rightarrow> Some (Inl e', w3))"
    by (rule client_replay) simp
  ultimately show ?thesis by (simp only:)
qed

lemma client_logged_out:
  assumes "adapter net cfg w = (Inl e, w1)" "is_401 e" "\<not> retry cfg"
      and "refreshToken net w1 = (tok, w2)" "\<not> truthy tok"
      and "adapter net (plain_request POST ''/auth/logout'' NoBody) w2 = (x, w3)"
      and "case x of Inl e' \<Rightarrow> \<not> is_401 e' | Inr res \<Rightarrow> True"
  shows "client (Suc (Suc n)) a net cfg w =
           Some (Inl (e\<lparr>config := cfg\<lparr>retry := True\<rparr>\<rparr>),
                 (case navigate a of
                    Some f \<Rightarrow> emit (Navigate (signIn a)) w3
                  | None \<Rightarrow> w3))"
proof -
  have c: "config e = cfg" using assms(1) by (rule adapter_config)
  have "\<exists>b. logout (Suc n) a net w2 = Some (b, w3)"
    using assms(6,7) by (cases x) (auto simp: Let_def)
  then show ?thesis
    using assms(1-5) c by (auto simp: Let_def simp del: logout.simps)
qed

lemma api_request_settles:
  fixes policy :: "axios_error \<Rightarrow> response_body"
  defines "policy \<equiv> (\<lambda>e. if code e = Some ''ERR_CANCELED''
      then JsonBody \<lparr>status = StatusIgnore, message = Some ''Pending request aborted'', data = NoData\<rparr>
      else (case response e of
              None \<Rightarrow> JsonBody \<lparr>status = StatusError, message = Some ''Something went wrong'', data = NoData\<rparr>
            | Some r \<Rightarrow>
                if body_truthy (err_body r) then err_body r
                else JsonBody \<lparr>status = StatusError, message = Some ''Something went wrong'', data = NoData\<rparr>))"
  assumes nr: "\<not> retry cfg"
  shows "client n a net cfg w = Some (Inl e, w') \<Longrightarrow>
           api_request n a net cfg w = Some (Resolved (policy e), w')"
    and "client n a net cfg w = Some (Inr res, w') \<Longrightarrow>
           api_request n a net cfg w = Some (Resolved (body res), w')"
    and "signal_aborted cfg w \<Longrightarrow>
           api_request (Suc n) a net cfg w =
             Some (Resolved (JsonBody \<lparr>status = StatusIgnore, message = Some ''Pending request aborted'',
                                       data = NoData\<rparr>), w)"
    and "adapter net cfg w = (Inr res, w1) \<Longrightarrow>
           api_request (Suc n) a net cfg w = Some (Resolved (body res), w1)"
    and "adapter net cfg w = (Inl e, w1) \<Longrightarrow> \<not> is_401 e \<Longrightarrow>
           api_request (Suc n) a net cfg w = Some (Resolved (policy e), w1)"
    and "adapter net cfg w = (Inl e, w1) \<Longrightarrow> is_401 e \<Longrightarrow> refreshToken net w1 = (tok, w2)
         \<Longrightarrow> truthy tok \<Longrightarrow>
           api_request (Suc (Suc n)) a net cfg w =
             (case adapter net (cfg\<lparr>retry := True\<rparr>) w2 of
                (Inr res, w3) \<Rightarrow> Some (Resolved (body res), w3)
              | (Inl e', w3) \<Rightarrow> Some (Resolved (policy e'), w3))"
    and "adapter net cfg w = (Inl e, w1) \<Longrightarrow> is_401 e \<Longrightarrow> refreshToken net w1 = (tok, w2)
         \<Longrightarrow> \<not> truthy tok
         \<Longrightarrow> adapter net (plain_request POST ''/auth/logout'' NoBody) w2 = (x, w3)
         \<Longrightarrow> (case x of Inl e' \<Rightarrow> \<not> is_401 e' | Inr res \<Rightarrow> True) \<Longrightarrow>
           api_request (Suc (Suc n)) a net cfg w =
             Some (Resolved (policy (e\<lparr>config := cfg\<lparr>retry := True\<rparr>\<rparr>)),
                   (case navigate a of
                      Some f \<Rightarrow> emit (Navigate (signIn a)) w3
                    | None \<Rightarrow> w3))"
proof -
  have p: "handleError (AxiosError e) = policy e" for e
    unfolding policy_def by (rule handleError_axios)
  show "client n a net cfg w = Some (Inl e, w') \<Longrightarrow>
           api_request n a net cfg w = Some (Resolved (policy e), w')"
    by (simp add: api_request_eq p)
  show "client n a net cfg w = Some (Inr res, w') \<Longrightarrow>
           api_request n a net cfg w = Some (Resolved (body res), w')"
    by (simp add: api_request_eq)
  show "signal_aborted cfg w \<Longrightarrow>
           api_request (Suc n) a net cfg w =
             Some (Resolved (JsonBody \<lparr>status = StatusIgnore, message = Some ''Pending request aborted'',
                                       data = NoData\<rparr>), w)"
    by (simp add: api_request_eq client_aborted p policy_def del: client.simps)
  show "adapter net cfg w = (Inr res, w1) \<Longrightarrow>
           api_request (Suc n) a net cfg w = Some (Resolved (body res), w1)"
    by (simp add: api_request_eq client_answer del: client.simps)
  show "adapter net cfg w = (Inl e, w1) \<Longrightarrow> \<not> is_401 e \<Longrightarrow>
           api_request (Suc n) a net cfg w = Some (Resolved (policy e), w1)"
    by (simp add: api_request_eq client_failure p del: client.simps)
  show "adapter net cfg w = (Inl e, w1) \<Longrightarrow> is_401 e \<Longrightarrow> refreshToken net w1 = (tok, w2)
         \<Longrightarrow> truthy tok \<Longrightarrow>
           api_request (Suc (Suc n)) a net cfg w =
             (case adapter net (cfg\<lparr>retry := True\<rparr>) w2 of
                (Inr res, w3) \<Rightarrow> Some (Resolved (body res), w3)
              | (Inl e', w3) \<Rightarrow> Some (Resolved (policy e'), w3))"
    using nr
    by (simp add: api_request_eq client_refreshed p del: client.simps split: prod.splits sum.splits)
  show "adapter net cfg w = (Inl e, w1) \<Longrightarrow> is_401 e \<Longrightarrow> refreshToken net w1 = (tok, w2)
         \<Longrightarrow> \<not> truthy tok
         \<Longrightarrow> adapter net (plain_request POST ''/auth/logout'' NoBody) w2 = (x, w3)
         \<Longrightarrow> (case x of Inl e' \<Rightarrow> \<not> is_401 e' | Inr res \<Rightarrow> True) \<Longrightarrow>
           api_request (Suc (Suc n)) a net cfg w =
             Some (Resolved (policy (e\<lparr>config := cfg\<lparr>retry := True\<rparr>\<rparr>)),
                   (case navigate a of
                      Some f \<Rightarrow> emit (Navigate (signIn a)) w3
                    | None \<Rightarrow> w3))"
    using nr
    by (simp add: api_request_eq client_logged_out p del: client.simps)
qed

text \<open>
  Claim C3, as amended. Each of the seven public operations (\<open>getAvailableRooms\<close>,
  \<open>getRooms\<close>, \<open>createEvent\<close>, \<open>updateEvent\<close>, \<open>deleteEvent\<close>, \<open>getMaxSeatCount\<close>,
  \<open>getFloors\<close>) is one request \<open>cfg\<close> through the client inside \<open>try\<close>/\<open>catch\<close>. When the
  request of the client rejects with an error, the operation resolves: with the envelope
  of status \<open>ignore\<close> when the error is a cancellation (code \<open>ERR_CANCELED\<close>); otherwise
  with the data of the response of the error as it is, whatever it is (the envelope of the
  server, but also a text or a number), when the error has a response whose data is truthy;
  and with the generic envelope of status \<open>error\<close>, message \<open>Something went wrong\<close> and
  no data when the error has no response or the data of its response is falsy. When the
  request of the client is answered, the operation resolves with the body of the answer.
  No operation is ever rejected. The operation does resolve, with the fuel written out,
  in each of these cases: the signal of the request is aborted; the request is answered;
  the request fails with an error that is not a 401; the request fails with a 401, the
  token refresh gives a truthy token and the replay is answered or fails; the request
  fails with a 401, the token refresh gives no token and the logout request is answered or
  fails with an error that is not a 401 (the operation then resolves by the original 401
  error, after the navigation when there is a router).
\<close>

theorem public_operations_error_policy:
  assumes "(operation, cfg) \<in>
     {(\<lambda>n. getAvailableRooms n a net sig startTime duration timeZone seats floor eventId,
       (plain_request GET ''/api/rooms/available''
          (AvailableRoomsParams \<lparr>q_startTime = startTime, q_duration = duration, q_timeZone = timeZone,
                                  q_seats = seats, q_floor = floor, q_eventId = eventId\<rparr>))
         \<lparr>signal := Some sig\<rparr>),
      (\<lambda>n. getRooms n a net startTime endTime timeZone,
       plain_request GET ''/api/events'' (EventsParams startTime endTime timeZone)),
      (\<lambda>n. createEvent n a net dto, plain_request POST ''/api/event'' (BookRoom dto)),
      (\<lambda>n. updateEvent n a net eventId' dto, plain_request PUT ''/api/event'' (UpdateRoom eventId' dto)),
      (\<lambda>n. deleteEvent n a net eventId', plain_request DELETE (''/api/event?id='' @ eventId') NoBody),
      (\<lambda>n. getMaxSeatCount n a net, plain_request GET ''/api/rooms/highest-seat-count'' NoBody),
      (\<lambda>n. getFloors n a net, plain_request GET ''/api/floors'' NoBody)}"
  shows "let ignored = JsonBody \<lparr>status = StatusIgnore, message = Some ''Pending request aborted'', data = NoData\<rparr>;
             generic = JsonBody \<lparr>status = StatusError, message = Some ''Something went wrong'', data = NoData\<rparr>;
             policy = (\<lambda>e. if code e = Some ''ERR_CANCELED'' then ignored
                            else (case response e of
                                    None \<Rightarrow> generic
                                  | Some r \<Rightarrow> if body_truthy (err_body r) then err_body r else generic))
         in (\<forall>n e w'. client n a net cfg w = Some (Inl e, w') \<longrightarrow>
                 operation n w = Some (Resolved (policy e), w'))
          \<and> (\<forall>n res w'. client n a net cfg w = Some (Inr res, w') \<longrightarrow>
                 operation n w = Some (Resolved (body res), w'))
          \<and> (\<forall>n e w'. operation n w \<noteq> Some (Rejected e, w'))
          \<and> (\<forall>n. signal_aborted cfg w \<longrightarrow> operation (Suc n) w = Some (Resolved ignored, w))
          \<and> (\<forall>n res w1. adapter net cfg w = (Inr res, w1) \<longrightarrow>
                 operation (Suc n) w = Some (Resolved (body res), w1))
          \<and> (\<forall>n e w1. adapter net cfg w = (Inl e, w1) \<and> \<not> is_401 e \<longrightarrow>
                 operation (Suc n) w = Some (Resolved (policy e), w1))
          \<and> (\<forall>n e w1 tok w2. adapter net cfg w = (Inl e, w1) \<and> is_401 e
                   \<and> refreshToken net w1 = (tok, w2) \<and> truthy tok \<longrightarrow>
                 operation (Suc (Suc n)) w =
                   (case adapter net (cfg\<lparr>retry := True\<rparr>) w2 of
                      (Inr res, w3) \<Rightarrow> Some (Resolved (body res), w3)
                    | (Inl e', w3) \<Rightarrow> Some (Resolved (policy e'), w3)))
          \<and> (\<forall>n e w1 tok w2 x w3. adapter net cfg w = (Inl e, w1) \<and> is_401 e
                   \<and> refreshToken net w1 = (tok, w2) \<and> \<not> truthy tok
                   \<and> adapter net (plain_request POST ''/auth/logout'' NoBody) w2 = (x, w3)
                   \<and> (case x of Inl e' \<Rightarrow> \<not> is_401 e' | Inr res \<Rightarrow> True) \<longrightarrow>
                 operation (Suc (Suc n)) w =
                   Some (Resolved (policy (e\<lparr>config := cfg\<lparr>retry := True\<rparr>\<rparr>)),
                         (case navigate a of
                            Some f \<Rightarrow> emit (Navigate (signIn a)) w3
                          | None \<Rightarrow> w3)))"
proof -
  from assms have op: "operation = (\<lambda>n. api_request n a net cfg)" and nr: "\<not> retry cfg"
    unfolding getAvailableRooms_def getRooms_def createEvent_def updateEvent_def deleteEvent_def
      getMaxSeatCount_def getFloors_def Let_def
    by (auto simp: plain_request_def)
  note s = api_request_settles [OF nr]
  show ?thesis
    unfolding Let_def op
    using s api_request_never_rejected [of _ a net cfg w]
    by (intro conjI allI impI) (simp_all del: client.simps)
qed

text \<open>
  The theorem at a network that is down: the request fails without a response, it is not a
  401, and \<open>getFloors\<close> resolves with the generic envelope after one request. The other
  cases by evaluation: an aborted signal gives the envelope of status \<open>ignore\<close> and no
  request; an error 500 with an envelope of the server gives that envelope; an error
  500 with an empty text gives the generic envelope; a 401 followed by a successful
  refresh gives the answer to the replay; a 401 followed by a failed refresh gives the
  envelope of the 401, after the logout and the navigation.
\<close>

theorem public_operations_error_policy_witness:
  "getFloors (Suc 0) api_with_router (script []) world0 =
     Some (Resolved (JsonBody \<lparr>status = StatusError, message = Some ''Something went wrong'', data = NoData\<rparr>),
           \<lparr>net_calls = 1, controllers = 0, aborted = [],
            events = [Sent (plain_request GET ''/api/floors'' NoBody)]\<rparr>)
   \<and> getAvailableRooms (Suc 0) api_with_router (script []) 0 ''2024-01-15T14:00:00+05:30'' 30
         ''Asia/Kolkata'' 4 None None \<lparr>net_calls = 0, controllers = 1, aborted = [0], events = []\<rparr> =
       Some (Resolved (JsonBody \<lparr>status = StatusIgnore, message = Some ''Pending request aborted'', data = NoData\<rparr>),
             \<lparr>net_calls = 0, controllers = 1, aborted = [0], events = []\<rparr>)
   \<and> deleteEvent (Suc 0) api_with_router
         (script [Failure (Some ''ERR_BAD_RESPONSE'')
                    (Some \<lparr>err_status = 500,
                           err_body = JsonBody \<lparr>status = StatusError, message = Some ''Calendar is down'',
                                                data = NoData\<rparr>\<rparr>)])
         ''e1'' world0 =
       Some (Resolved (JsonBody \<lparr>status = StatusError, message = Some ''Calendar is down'', data = NoData\<rparr>),
             \<lparr>net_calls = 1, controllers = 0, aborted = [],
              events = [Sent (plain_request DELETE ''/api/event?id=e1'' NoBody)]\<rparr>)
   \<and> getFloors (Suc 0) api_with_router
         (script [Failure (Some ''ERR_BAD_RESPONSE'') (Some \<lparr>err_status = 500, err_body = TextBody []\<rparr>)])
         world0 =
       Some (Resolved (JsonBody \<lparr>status = StatusError, message = Some ''Something went wrong'', data = NoData\<rparr>),
             \<lparr>net_calls = 1, controllers = 0, aborted = [],
              events = [Sent (plain_request GET ''/api/floors'' NoBody)]\<rparr>)
   \<and> getFloors (Suc (Suc 0)) api_with_router net_refresh_succeeds world0 =
       Some (Resolved (JsonBody \<lparr>status = StatusSuccess, message = None, data = ListData [''1'', ''2'']\<rparr>),
             \<lparr>net_calls = 3, controllers = 0, aborted = [],
              events = [Sent (plain_request GET ''/api/floors'' NoBody),
                        Sent (plain_request GET ''/auth/token/refresh'' NoBody),
                        Sent ((plain_request GET ''/api/floors'' NoBody)\<lparr>retry := True\<rparr>)]\<rparr>)
   \<and> getFloors (Suc (Suc 0)) api_with_router net_refresh_fails world0 =
       Some (Resolved (JsonBody \<lparr>status = StatusError, message = Some ''Unauthorized'', data = NoData\<rparr>),
             \<lparr>net_calls = 3, controllers = 0, aborted = [],
              events = [Sent (plain_request GET ''/api/floors'' NoBody),
                        Sent (plain_request GET ''/auth/token/refresh'' NoBody),
                        Sent (plain_request POST ''/auth/logout'' NoBody),
                        Navigate ''/sign-in'']\<rparr>)"
proof -
  let ?cfg = "plain_request GET ''/api/floors'' NoBody"
  let ?e = "\<lparr>code = Some ''ERR_NETWORK'', response = None, config = ?cfg\<rparr>"
  let ?w1 = "\<lparr>net_calls = 1, controllers = 0, aborted = [], events = [Sent ?cfg]\<rparr>"
  have ad: "adapter (script []) ?cfg world0 = (Inl ?e, ?w1)"
    by (simp add: adapter_def signal_aborted_def plain_request_def script_def world0_def emit_def)
  have n401: "\<not> is_401 ?e" by (simp add: is_401_def)
  note t = public_operations_error_policy
    [where operation = "\<lambda>n. getFloors n api_with_router (script [])" and cfg = ?cfg
       and a = api_with_router and net = "script []" and w = world0
       and sig = 0 and startTime = "[]" and duration = 0 and timeZone = "[]" and seats = 0
       and floor = None and eventId = None and endTime = "[]" and eventId' = "[]"
       and dto = "\<lparr>dto_startTime = [], dto_duration = 0, dto_seats = 0, dto_floor = None,
                   dto_timeZone = [], dto_createConference = None, dto_title = None,
                   dto_room = [], dto_attendees = None\<rparr>",
     unfolded Let_def]
  have "\<forall>n e w1. adapter (script []) ?cfg world0 = (Inl e, w1) \<and> \<not> is_401 e \<longrightarrow>
          getFloors (Suc n) api_with_router (script []) world0 =
            Some (Resolved
              (if code e = Some ''ERR_CANCELED''
               then JsonBody \<lparr>status = StatusIgnore, message = Some ''Pending request aborted'', data = NoData\<rparr>
               else (case response e of
                       None \<Rightarrow> JsonBody \<lparr>status = StatusError, message = Some ''Something went wrong'', data = NoData\<rparr>
                     | Some r \<Rightarrow>
                         if body_truthy (err_body r) then err_body r
                         else JsonBody \<lparr>status = StatusError, message = Some ''Something went wrong'', data = NoData\<rparr>)),
              w1)"
    by (rule t [THEN conjunct2, THEN conjunct2, THEN conjunct2, THEN conjunct2, THEN conjunct2,
               THEN conjunct1]) simp
  then have "getFloors (Suc 0) api_with_router (script []) world0 =
            Some (Resolved
              (if code ?e = Some ''ERR_CANCELED''
               then JsonBody \<lparr>status = StatusIgnore, message = Some ''Pending request aborted'', data = NoData\<rparr>
               else (case response ?e of
                       None \<Rightarrow> JsonBody \<lparr>status = StatusError, message = Some ''Something went wrong'', data = NoData\<rparr>
                     | Some r \<Rightarrow>
                         if body_truthy (err_body r) then err_body r
                         else JsonBody \<lparr>status = StatusError, message = Some ''Something went wrong'', data = NoData\<rparr>)),
              ?w1)"
    using ad n401 by blast
  then have "getFloors (Suc 0) api_with_router (script []) world0 =
       Some (Resolved (JsonBody \<lparr>status = StatusError, message = Some ''Something went wrong'', data = NoData\<rparr>),
             \<lparr>net_calls = 1, controllers = 0, aborted = [],
              events = [Sent (plain_request GET ''/api/floors'' NoBody)]\<rparr>)"
    by simp
  moreover have "getAvailableRooms (Suc 0) api_with_router (script []) 0 ''2024-01-15T14:00:00+05:30'' 30
         ''Asia/Kolkata'' 4 None None \<lparr>net_calls = 0, controllers = 1, aborted = [0], events = []\<rparr> =
       Some (Resolved (JsonBody \<lparr>status = StatusIgnore, message = Some ''Pending request aborted'', data = NoData\<rparr>),
             \<lparr>net_calls = 0, controllers = 1, aborted = [0], events = []\<rparr>)"
    by code_simp
  moreover have "deleteEvent (Suc 0) api_with_router
         (script [Failure (Some ''ERR_BAD_RESPONSE'')
                    (Some \<lparr>err_status = 500,
                           err_body = JsonBody \<lparr>status = StatusError, message = Some ''Calendar is down'',
                                                data = NoData\<rparr>\<rparr>)])
         ''e1'' world0 =
       Some (Resolved (JsonBody \<lparr>status = StatusError, message = Some ''Calendar is down'', data = NoData\<rparr>),
             \<lparr>net_calls = 1, controllers = 0, aborted = [],
              events = [Sent (plain_request DELETE ''/api/event?id=e1'' NoBody)]\<rparr>)"
    by code_simp
  moreover have "getFloors (Suc 0) api_with_router
         (script [Failure (Some ''ERR_BAD_RESPONSE'') (Some \<lparr>err_status = 500, err_body = TextBody []\<rparr>)])
         world0 =
       Some (Resolved (JsonBody \<lparr>status = StatusError, message = Some ''Something went wrong'', data = NoData\<rparr>),
             \<lparr>net_calls = 1, controllers = 0, aborted = [],
              events = [Sent (plain_request GET ''/api/floors'' NoBody)]\<rparr>)"
    by code_simp
  moreover have "getFloors (Suc (Suc 0)) api_with_router net_refresh_succeeds world0 =
       Some (Resolved (JsonBody \<lparr>status = StatusSuccess, message = None, data = ListData [''1'', ''2'']\<rparr>),
             \<lparr>net_calls = 3, controllers = 0, aborted = [],
              events = [Sent (plain_request GET ''/api/floors'' NoBody),
                        Sent (plain_request GET ''/auth/token/refresh'' NoBody),
                        Sent ((plain_request GET ''/api/floors'' NoBody)\<lparr>retry := True\<rparr>)]\<rparr>)"
    by code_simp
  moreover have "getFloors (Suc (Suc 0)) api_with_router net_refresh_fails world0 =
       Some (Resolved (JsonBody \<lparr>status = StatusError, message = Some ''Unauthorized'', data = NoData\<rparr>),
             \<lparr>net_calls = 3, controllers = 0, aborted = [],
              events = [Sent (plain_request GET ''/api/floors'' NoBody),
                        Sent (plain_request GET ''/auth/token/refresh'' NoBody),
                        Sent (plain_request POST ''/auth/logout'' NoBody),
                        Navigate ''/sign-in'']\<rparr>)"
    by code_simp
  ultimately show ?thesis by (intro conjI)
qed

text \<open>
  The claim C3 as it was stated fails: it promises the generic envelope when the error
  holds no envelope of the server. A 502 of a gateway whose body is the text
  \<open>Bad Gateway\<close> holds none, and \<open>getFloors\<close> resolves with that text, not with the
  generic envelope.
\<close>

theorem text_body_returned_as_is:
  "getFloors (Suc 0) api_with_router net_bad_gateway world0 =
     Some (Resolved (TextBody ''Bad Gateway''),
           \<lparr>net_calls = 1, controllers = 0, aborted = [],
            events = [Sent (plain_request GET ''/api/floors'' NoBody)]\<rparr>)
   \<and> TextBody ''Bad Gateway''
      \<noteq> JsonBody \<lparr>status = StatusError, message = Some ''Something went wrong'', data = NoData\<rparr>"
  by (simp add: getFloors_def api_request_def await_client_def try_catch_def handleError_def
        thrown_code_def thrown_response_data_def createReply_def adapter_def signal_aborted_def
        plain_request_def script_def world0_def emit_def is_401_def net_bad_gateway_def Let_def)

section \<open>Properties of the booking view\<close>

subsection \<open>A query that was superseded\<close>

lemma today_ist: "today runtime_ist = Inr ''2024-01-15''"
  by code_simp

lemma start_time_ist: "convertToRFC3339 runtime_ist ''2024-01-15'' ''2:00 PM'' = Inr ''2024-01-15T14:00:00+05:30''"
  by code_simp

lemma setAvailableRooms_resume_ignore:
  "result_status res = Inr (Some StatusIgnore) \<Longrightarrow>
     setAvailableRooms_resume pq res v w = (Returned, v\<lparr>roomLoading := False\<rparr>, w)"
  by (simp add: setAvailableRooms_resume_def Let_def)

lemma first_query:
  "setAvailableRooms_begin runtime_ist ''Asia/Kolkata'' prefs0 form0 view0 world0 = (Awaiting query1, view1, world1)"
  by (simp add: setAvailableRooms_begin_def today_ist start_time_ist form0_def view0_def prefs0_def
        world0_def query1_def view1_def world1_def Let_def)

lemma second_query:
  "setAvailableRooms_begin runtime_ist ''Asia/Kolkata'' prefs0 form1 (view1\<lparr>formData := form1\<rparr>) world1
     = (Awaiting query2, view2, world2)"
  by (simp add: setAvailableRooms_begin_def today_ist start_time_ist form0_def form1_def view0_def prefs0_def
        query2_def view1_def world1_def view2_def world2_def Let_def)

lemma first_query_ignored:
  "pending_request (Suc 0) api_with_router net_two_rooms query1 world2 = Some (Resolved ignored_result, world2)"
  by (simp add: pending_request_def getAvailableRooms_def api_request_def await_client_def try_catch_def
        handleError_def thrown_code_def createReply_def adapter_def signal_aborted_def plain_request_def
        is_401_def query1_def world2_def ignored_result_def Let_def)

lemma second_query_answered:
  "pending_request (Suc 0) api_with_router net_two_rooms query2 (world2)
     = Some (Resolved rooms_result,
             world2\<lparr>net_calls := 1,
                    events := [Sent ((plain_request GET ''/api/rooms/available''
                       (AvailableRoomsParams \<lparr>q_startTime = ''2024-01-15T14:00:00+05:30'', q_duration = 60,
                          q_timeZone = ''Asia/Kolkata'', q_seats = 4, q_floor = None, q_eventId = None\<rparr>))
                       \<lparr>signal := Some 1\<rparr>)]\<rparr>)"
  by (simp add: pending_request_def getAvailableRooms_def api_request_def await_client_def try_catch_def
        adapter_def signal_aborted_def plain_request_def is_401_def net_two_rooms_def script_def ok_answer_def emit_def
        query2_def world2_def rooms_result_def Let_def)

lemma second_query_applied:
  "setAvailableRooms_resume query2 rooms_result (view2\<lparr>roomLoading := False\<rparr>) w
     = (Returned,
        view2\<lparr>roomLoading := False,
               formData := form1\<lparr>form_room := Some ''ada@rooms''\<rparr>,
               availableRoomOptions :=
                 [\<lparr>opt_value = Some ''ada@rooms'', opt_text = Some ''Ada'', opt_seats = Some 4, opt_floor = Some ''F1''\<rparr>,
                  \<lparr>opt_value = Some ''bob@rooms'', opt_text = Some ''Bob'', opt_seats = Some 8, opt_floor = Some ''F2''\<rparr>]\<rparr>,
        w)"
  by (simp add: setAvailableRooms_resume_def rooms_result_def two_rooms_def createRoomDropdownOptions_def
        query2_def view2_def Let_def)

text \<open>
  Claim C1, at the two queries above. Starting the second query aborts the controller of
  the first, the first resolves with the status \<open>ignore\<close>, and its resolution leaves the
  room options and the form data as they are. It does not leave the state of the view as
  it is: \<open>setRoomLoading(false)\<close> comes before the test for \<open>ignore\<close>, so the resolution
  of the first query puts \<open>roomLoading\<close> to false while the second query is in flight.
\<close>

theorem superseded_query_resets_roomLoading:
  "setAvailableRooms_begin runtime_ist ''Asia/Kolkata'' prefs0 form0 view0 world0
     = (Awaiting query1, view1, world1)
   \<and> setAvailableRooms_begin runtime_ist ''Asia/Kolkata'' prefs0 form1 (view1\<lparr>formData := form1\<rparr>) world1
     = (Awaiting query2, view2, world2)
   \<and> abortControllerRef view1 = Some (pq_signal query1)
   \<and> pq_signal query1 \<notin> set (aborted world1)
   \<and> pq_signal query1 \<in> set (aborted world2)
   \<and> roomLoading view2 = True
   \<and> pending_request (Suc 0) api_with_router net_two_rooms query1 world2
     = Some (Resolved ignored_result, world2)
   \<and> result_status ignored_result = Inr (Some StatusIgnore)
   \<and> setAvailableRooms_resume query1 ignored_result view2 world2
     = (Returned, view2\<lparr>roomLoading := False\<rparr>, world2)
   \<and> view2\<lparr>roomLoading := False\<rparr> \<noteq> view2"
proof -
  have st: "result_status ignored_result = Inr (Some StatusIgnore)"
    by (simp add: ignored_result_def)
  have a: "abortControllerRef view1 = Some (pq_signal query1)"
    by (simp add: view1_def query1_def)
  have b: "pq_signal query1 \<notin> set (aborted world1)" "pq_signal query1 \<in> set (aborted world2)"
    by (simp_all add: query1_def world1_def world2_def)
  have c: "roomLoading view2 = True"
    by (simp add: view2_def)
  have d: "setAvailableRooms_resume query1 ignored_result view2 world2
             = (Returned, view2\<lparr>roomLoading := False\<rparr>, world2)"
    using st by (rule setAvailableRooms_resume_ignore)
  have e: "view2\<lparr>roomLoading := False\<rparr> \<noteq> view2"
  proof
    assume "view2\<lparr>roomLoading := False\<rparr> = view2"
    then have "roomLoading (view2\<lparr>roomLoading := False\<rparr>) = roomLoading view2" by (simp only:)
    then show False using c by simp
  qed
  show ?thesis
    using first_query second_query a b c first_query_ignored st d e by (intro conjI)
qed

subsection \<open>A booking without a room\<close>

lemma onBookClick_begin_no_room:
  "falsy_string (form_room fd) \<Longrightarrow>
     onBookClick_begin rt timeZone prefs fd v w = (Returned, v\<lparr>bookClickLoading := True\<rparr>, w)"
  by (simp add: onBookClick_begin_def Let_def)


end
